theory Spec2Isabelle
  imports Main "HOL-Library.Word"
begin

section \<open>The image conversion engine of ConvertBot (src/main.py, class ImageConverter)\<close>

text \<open>
  The engine orchestrates calls into the Pillow imaging library. The library is not part
  of the repository, so it is a parameter of the model: a record of functions that say,
  for every call, whether the call raises and which pixel data it produces. What the
  engine itself computes (sizes, crop boxes, mode decisions, the order of the calls, the
  handling of exceptions and of the output stream) is translated from the source.
\<close>

subsection \<open>Data\<close>

type_synonym bytes = "8 word list"

text \<open>
  A raised Python exception. Only its text \<open>str(e)\<close> is ever read by the engine. The
  model covers the exceptions derived from \<open>Exception\<close>, the ones an \<open>except Exception\<close>
  clause catches; this is the class of every error the imaging library raises (OSError,
  ValueError, KeyError, MemoryError, ...).
\<close>

datatype exn = Exception string

fun str :: "exn \<Rightarrow> string" where
  "str (Exception s) = s"

text \<open>
  A decoded image, with the attributes the engine reads: \<open>img.width\<close>, \<open>img.height\<close>,
  \<open>img.mode\<close>, and whether \<open>'transparency' in img.info\<close>. Everything else about the
  image object (its samples, its palette, the rest of \<open>info\<close>) is the abstract \<open>pixels\<close>.
\<close>

record 'px image =
  width :: int
  height :: int
  mode :: string
  transparency :: bool
  pixels :: 'px

text \<open>The keyword arguments of \<open>Image.save\<close>; \<open>None\<close> is an argument that is not passed.\<close>

record 'px save_kwargs =
  kw_format :: string
  kw_sizes :: "(int \<times> int) list option"
  kw_bitmap_format :: "string option"
  kw_append_images :: "'px image list option"
  kw_optimize :: "bool option"
  kw_quality :: "int option"

text \<open>A call into the imaging library, with its arguments.\<close>

datatype 'px call =
    Crop "'px image" "int \<times> int \<times> int \<times> int"
  | Resize "'px image" "int \<times> int"
  | Copy "'px image"
  | Convert "'px image" string
  | New string "int \<times> int"
  | Split "'px image"
  | Paste "'px image" "'px image" "'px image option"
  | Save "'px image" "'px save_kwargs"

text \<open>
  The imaging library. Each function returns either the exception the call raises or the
  pixel data of the image it produces. \<open>pil_save\<close> receives the content of the stream it
  writes to and returns the content it leaves behind, together with the exception it
  raised, if any: a save that fails may already have written to the stream.
\<close>

record 'px pil =
  pil_crop :: "'px image \<Rightarrow> int \<times> int \<times> int \<times> int \<Rightarrow> exn + 'px"
  pil_resize :: "'px image \<Rightarrow> int \<times> int \<Rightarrow> exn + 'px"
  pil_copy :: "'px image \<Rightarrow> exn + 'px"
  pil_convert :: "'px image \<Rightarrow> string \<Rightarrow> exn + 'px \<times> bool"
  pil_new :: "string \<Rightarrow> int \<times> int \<Rightarrow> exn + 'px"
  pil_split :: "'px image \<Rightarrow> exn + 'px list"
  pil_paste :: "'px image \<Rightarrow> 'px image \<Rightarrow> 'px image option \<Rightarrow> exn + 'px"
  pil_save :: "'px image \<Rightarrow> 'px save_kwargs \<Rightarrow> bytes \<Rightarrow> bytes \<times> exn option"

subsection \<open>Computations that write to the output stream, call the library and may raise\<close>

text \<open>
  A computation starts from the content of the \<open>io.BytesIO\<close> object \<open>output\<close> and yields
  the raised exception or the returned value, the content of \<open>output\<close> afterwards, and
  the library calls it made, in order. The stream and the calls survive an exception.
\<close>

type_synonym ('px, 'a) py = "bytes \<Rightarrow> (exn + 'a) \<times> bytes \<times> 'px call list"

definition py_return :: "'a \<Rightarrow> ('px, 'a) py" where
  "py_return x = (\<lambda>out. (Inr x, out, []))"

definition py_raise :: "exn \<Rightarrow> ('px, 'a) py" where
  "py_raise e = (\<lambda>out. (Inl e, out, []))"

definition py_bind :: "('px, 'a) py \<Rightarrow> ('a \<Rightarrow> ('px, 'b) py) \<Rightarrow> ('px, 'b) py" where
  "py_bind m f = (\<lambda>out.
     case m out of
       (Inl e, out1, cs) \<Rightarrow> (Inl e, out1, cs)
     | (Inr x, out1, cs) \<Rightarrow> (case f x out1 of (r, out2, cs') \<Rightarrow> (r, out2, cs @ cs')))"

text \<open>\<open>try: m except Exception as e: h e\<close>\<close>

definition py_try :: "('px, 'a) py \<Rightarrow> (exn \<Rightarrow> ('px, 'a) py) \<Rightarrow> ('px, 'a) py" where
  "py_try m h = (\<lambda>out.
     case m out of
       (Inl e, out1, cs) \<Rightarrow> (case h e out1 of (r, out2, cs') \<Rightarrow> (r, out2, cs @ cs'))
     | (Inr x, out1, cs) \<Rightarrow> (Inr x, out1, cs))"

subsection \<open>The library calls the engine makes\<close>

text \<open>
  The attributes of a produced image follow the library's interface: \<open>crop\<close> yields the
  size of the box, \<open>resize\<close> the requested size, \<open>convert\<close> the requested mode; \<open>crop\<close>,
  \<open>resize\<close> and \<open>copy\<close> keep the mode and the \<open>info\<close> dictionary; \<open>convert\<close> may drop the
  transparency entry, so the library reports it; a new image has an empty \<open>info\<close>.
\<close>

definition crop :: "'px pil \<Rightarrow> 'px image \<Rightarrow> int \<times> int \<times> int \<times> int \<Rightarrow> ('px, 'px image) py" where
  "crop pil img box = (\<lambda>out.
     case box of (left, top', right, bottom) \<Rightarrow>
       (case pil_crop pil img box of
          Inl e \<Rightarrow> (Inl e, out, [Crop img box])
        | Inr px \<Rightarrow> (Inr (img\<lparr>width := right - left, height := bottom - top', pixels := px\<rparr>),
                    out, [Crop img box])))"

definition resize :: "'px pil \<Rightarrow> 'px image \<Rightarrow> int \<times> int \<Rightarrow> ('px, 'px image) py" where
  "resize pil img sz = (\<lambda>out.
     case pil_resize pil img sz of
       Inl e \<Rightarrow> (Inl e, out, [Resize img sz])
     | Inr px \<Rightarrow> (Inr (img\<lparr>width := fst sz, height := snd sz, pixels := px\<rparr>),
                 out, [Resize img sz]))"

definition copy :: "'px pil \<Rightarrow> 'px image \<Rightarrow> ('px, 'px image) py" where
  "copy pil img = (\<lambda>out.
     case pil_copy pil img of
       Inl e \<Rightarrow> (Inl e, out, [Copy img])
     | Inr px \<Rightarrow> (Inr (img\<lparr>pixels := px\<rparr>), out, [Copy img]))"

definition convert :: "'px pil \<Rightarrow> 'px image \<Rightarrow> string \<Rightarrow> ('px, 'px image) py" where
  "convert pil img m = (\<lambda>out.
     case pil_convert pil img m of
       Inl e \<Rightarrow> (Inl e, out, [Convert img m])
     | Inr (px, t) \<Rightarrow> (Inr (img\<lparr>mode := m, transparency := t, pixels := px\<rparr>),
                      out, [Convert img m]))"

text \<open>\<open>Image.new(m, sz, (255, 255, 255))\<close>: the engine only ever asks for a white image.\<close>

definition new :: "'px pil \<Rightarrow> string \<Rightarrow> int \<times> int \<Rightarrow> ('px, 'px image) py" where
  "new pil m sz = (\<lambda>out.
     case pil_new pil m sz of
       Inl e \<Rightarrow> (Inl e, out, [New m sz])
     | Inr px \<Rightarrow> (Inr \<lparr>width = fst sz, height = snd sz, mode = m, transparency = False,
                       pixels = px\<rparr>, out, [New m sz]))"

text \<open>\<open>img.split()\<close>: the bands of the image, each a single-channel image of the same size.\<close>

definition split :: "'px pil \<Rightarrow> 'px image \<Rightarrow> ('px, 'px image list) py" where
  "split pil img = (\<lambda>out.
     case pil_split pil img of
       Inl e \<Rightarrow> (Inl e, out, [Split img])
     | Inr pxs \<Rightarrow> (Inr (map (\<lambda>px. img\<lparr>mode := ''L'', pixels := px\<rparr>) pxs), out, [Split img]))"

text \<open>\<open>background.paste(img, mask=mask)\<close> changes \<open>background\<close> in place; the model returns it.\<close>

definition paste :: "'px pil \<Rightarrow> 'px image \<Rightarrow> 'px image \<Rightarrow> 'px image option \<Rightarrow> ('px, 'px image) py" where
  "paste pil background img mask' = (\<lambda>out.
     case pil_paste pil background img mask' of
       Inl e \<Rightarrow> (Inl e, out, [Paste background img mask'])
     | Inr px \<Rightarrow> (Inr (background\<lparr>pixels := px\<rparr>), out, [Paste background img mask']))"

text \<open>\<open>img.save(output, **kw)\<close>\<close>

definition save :: "'px pil \<Rightarrow> 'px image \<Rightarrow> 'px save_kwargs \<Rightarrow> ('px, unit) py" where
  "save pil img kw = (\<lambda>out.
     case pil_save pil img kw out of
       (out', None) \<Rightarrow> (Inr (), out', [Save img kw])
     | (out', Some e) \<Rightarrow> (Inl e, out', [Save img kw]))"

text \<open>\<open>xs[-1]\<close>\<close>

definition last_item :: "'a list \<Rightarrow> ('px, 'a) py" where
  "last_item xs = (if xs = [] then py_raise (Exception ''tuple index out of range'')
                   else py_return (last xs))"

subsection \<open>ImageConverter.FORMAT_MAP\<close>

definition FORMAT_MAP :: "(string \<times> string \<times> string) list" where
  "FORMAT_MAP =
    [(''PNG'', ''PNG'', ''png''),
     (''JPEG'', ''JPEG'', ''jpg''),
     (''WEBP'', ''WEBP'', ''webp''),
     (''BMP'', ''BMP'', ''bmp''),
     (''TIF'', ''TIFF'', ''tif''),
     (''TIFF'', ''TIFF'', ''tiff''),
     (''GIF'', ''GIF'', ''gif''),
     (''ICO'', ''ICO'', ''ico''),
     (''PDF'', ''PDF'', ''pdf''),
     (''JP2'', ''JPEG2000'', ''jp2''),
     (''APNG'', ''PNG'', ''apng'')]"

subsection \<open>ImageConverter._convert_to_ico\<close>

text \<open>The choice of \<open>sizes\<close> from \<open>original_size = min(img.width, img.height)\<close>.\<close>

definition ico_sizes :: "int \<Rightarrow> int list" where
  "ico_sizes original_size =
    (if original_size \<ge> 256 then [256]
     else if original_size \<ge> 128 then [128]
     else if original_size \<ge> 64 then [64]
     else if original_size \<ge> 32 then [32]
     else (if original_size \<ge> 16 then [original_size] else [16]))"

text \<open>The box of the centred square crop, used by the primary and the fallback method.\<close>

definition square_box :: "'px image \<Rightarrow> int \<times> int \<times> int \<times> int" where
  "square_box img =
    (let min_dimension = min (width img) (height img);
         left = (width img - min_dimension) div 2;
         top' = (height img - min_dimension) div 2;
         right = left + min_dimension;
         bottom = top' + min_dimension
     in (left, top', right, bottom))"

text \<open>
  The square image both methods derive from the input: the centred crop if the image is
  not square, the image itself otherwise.
\<close>

definition crop_to_square :: "'px pil \<Rightarrow> 'px image \<Rightarrow> ('px, 'px image) py" where
  "crop_to_square pil img =
    (if width img \<noteq> height img then crop pil img (square_box img)
     else py_return img)"

text \<open>The colour mode handling of the primary method.\<close>

definition ico_mode :: "'px pil \<Rightarrow> 'px image \<Rightarrow> ('px, 'px image) py" where
  "ico_mode pil resized =
    (if mode resized = ''RGBA'' then py_return resized
     else if mode resized = ''RGB'' then py_return resized
     else if mode resized = ''P'' then convert pil resized ''RGBA''
     else if mode resized \<in> set [''L'', ''LA''] then convert pil resized ''RGBA''
     else convert pil resized ''RGBA'')"

text \<open>The body of \<open>for size in sizes\<close>: the image appended to \<open>images\<close>.\<close>

definition ico_frame :: "'px pil \<Rightarrow> 'px image \<Rightarrow> int \<Rightarrow> ('px, 'px image) py" where
  "ico_frame pil img sz =
    py_bind
      (if width img \<noteq> sz \<or> height img \<noteq> sz then
         py_bind (crop_to_square pil img) (\<lambda>square_img. resize pil square_img (sz, sz))
       else copy pil img)
      (\<lambda>resized. ico_mode pil resized)"

fun ico_frames :: "'px pil \<Rightarrow> 'px image \<Rightarrow> int list \<Rightarrow> ('px, 'px image list) py" where
  "ico_frames pil img [] = py_return []"
| "ico_frames pil img (sz # sizes) =
    py_bind (ico_frame pil img sz) (\<lambda>resized.
    py_bind (ico_frames pil img sizes) (\<lambda>images.
    py_return (resized # images)))"

text \<open>The call \<open>first_image.save(output, **save_kwargs)\<close> of the primary method.\<close>

definition ico_save :: "'px pil \<Rightarrow> 'px image list \<Rightarrow> ('px, bool) py" where
  "ico_save pil images =
    (let sizes_tuple = map (\<lambda>im. (width im, height im)) images;
         first_image = hd images;
         save_kwargs = \<lparr>kw_format = ''ICO'', kw_sizes = Some sizes_tuple,
           kw_bitmap_format = Some ''bmp'',
           kw_append_images = (if length images > 1 then Some (tl images) else None),
           kw_optimize = None, kw_quality = None\<rparr>
     in py_bind (save pil first_image save_kwargs) (\<lambda>_. py_return True))"

text \<open>The \<open>try\<close> block: the primary method.\<close>

definition ico_primary :: "'px pil \<Rightarrow> 'px image \<Rightarrow> ('px, bool) py" where
  "ico_primary pil img =
    (let original_size = min (width img) (height img);
         sizes = ico_sizes original_size
     in py_bind (ico_frames pil img sizes) (\<lambda>images.
          if images \<noteq> [] then ico_save pil images else py_return False))"

text \<open>The steps of the simplified method: resize, colour mode, save.\<close>

definition fallback_resize :: "'px pil \<Rightarrow> 'px image \<Rightarrow> int \<Rightarrow> ('px, 'px image) py" where
  "fallback_resize pil square_img simple_size =
    (if (width square_img, height square_img) \<noteq> (simple_size, simple_size)
     then resize pil square_img (simple_size, simple_size)
     else py_return square_img)"

definition fallback_convert :: "'px pil \<Rightarrow> 'px image \<Rightarrow> ('px, 'px image) py" where
  "fallback_convert pil resized =
    (if mode resized \<notin> set [''RGB'', ''RGBA''] then
       (if transparency resized \<or> mode resized \<in> set [''LA'', ''P'']
        then convert pil resized ''RGBA''
        else convert pil resized ''RGB'')
     else py_return resized)"

definition fallback_kwargs :: "'px save_kwargs" where
  "fallback_kwargs = \<lparr>kw_format = ''ICO'', kw_sizes = None, kw_bitmap_format = Some ''bmp'',
     kw_append_images = None, kw_optimize = None, kw_quality = None\<rparr>"

definition fallback_save :: "'px pil \<Rightarrow> 'px image \<Rightarrow> ('px, bool) py" where
  "fallback_save pil resized =
    py_bind (save pil resized fallback_kwargs) (\<lambda>_. py_return True)"

text \<open>The inner \<open>try\<close> block of the handler: the simplified method.\<close>

definition ico_fallback :: "'px pil \<Rightarrow> 'px image \<Rightarrow> ('px, bool) py" where
  "ico_fallback pil img =
    (let simple_size = min 256 (min (width img) (height img))
     in py_bind (crop_to_square pil img) (\<lambda>square_img.
        py_bind (fallback_resize pil square_img simple_size) (\<lambda>resized.
        py_bind (fallback_convert pil resized) (\<lambda>resized.
        fallback_save pil resized))))"

definition convert_to_ico :: "'px pil \<Rightarrow> 'px image \<Rightarrow> ('px, bool) py" where
  "convert_to_ico pil img =
    py_try (ico_primary pil img)
      (\<lambda>e. py_try (ico_fallback pil img) (\<lambda>fallback_error. py_return False))"

subsection \<open>ImageConverter._convert_to_jpeg\<close>

text \<open>The \<open>try\<close> block.\<close>

definition convert_to_jpeg_try :: "'px pil \<Rightarrow> 'px image \<Rightarrow> string \<Rightarrow> ('px, bool) py" where
  "convert_to_jpeg_try pil img pil_format =
    py_bind
      (if mode img \<in> set [''RGBA'', ''LA'', ''P''] then
         py_bind (new pil ''RGB'' (width img, height img)) (\<lambda>background.
         py_bind (if mode img = ''P'' then convert pil img ''RGBA'' else py_return img)
           (\<lambda>img.
         py_bind (if mode img = ''RGBA''
                  then py_bind (split pil img) (\<lambda>bands.
                       py_bind (last_item bands) (\<lambda>band. py_return (Some band)))
                  else py_return None)
           (\<lambda>mask'.
         paste pil background img mask')))
       else py_return img)
      (\<lambda>img.
    py_bind
      (save pil img \<lparr>kw_format = pil_format, kw_sizes = None, kw_bitmap_format = None,
         kw_append_images = None, kw_optimize = Some True, kw_quality = Some 90\<rparr>)
      (\<lambda>_. py_return True))"

text \<open>The whole function: an exception raised in the \<open>try\<close> block makes it return \<open>False\<close>.\<close>

definition convert_to_jpeg :: "'px pil \<Rightarrow> 'px image \<Rightarrow> string \<Rightarrow> ('px, bool) py" where
  "convert_to_jpeg pil img pil_format =
    py_try (convert_to_jpeg_try pil img pil_format) (\<lambda>e. py_return False)"

subsection \<open>ImageConverter._convert_to_pdf\<close>

text \<open>The \<open>try\<close> block.\<close>

definition convert_to_pdf_try :: "'px pil \<Rightarrow> 'px image \<Rightarrow> ('px, bool) py" where
  "convert_to_pdf_try pil img =
    py_bind (if mode img \<noteq> ''RGB'' then convert pil img ''RGB'' else py_return img)
      (\<lambda>img.
    py_bind
      (save pil img \<lparr>kw_format = ''PDF'', kw_sizes = None, kw_bitmap_format = None,
         kw_append_images = None, kw_optimize = Some True, kw_quality = None\<rparr>)
      (\<lambda>_. py_return True))"

definition convert_to_pdf :: "'px pil \<Rightarrow> 'px image \<Rightarrow> ('px, bool) py" where
  "convert_to_pdf pil img = py_try (convert_to_pdf_try pil img) (\<lambda>e. py_return False)"

subsection \<open>ImageConverter.convert_to_format\<close>

text \<open>
  The literals of the three messages, as UTF-8:
  \<open>msg_unsupported\<close> is the text before \<open>{format_name}\<close> in the message for a name outside
  the table, \<open>msg_not_converted\<close> the one in the message for an encoder that returned
  \<open>False\<close>, \<open>msg_error\<close> the text before \<open>{str(e)}\<close> in the message for a caught exception.
\<close>

definition msg_unsupported :: string where
  "msg_unsupported = [CHR 0xD0, CHR 0x9D, CHR 0xD0, CHR 0xB5, CHR 0xD0, CHR 0xBF, CHR 0xD0,
    CHR 0xBE, CHR 0xD0, CHR 0xB4, CHR 0xD0, CHR 0xB4, CHR 0xD0, CHR 0xB5, CHR 0xD1, CHR 0x80,
    CHR 0xD0, CHR 0xB6, CHR 0xD0, CHR 0xB8, CHR 0xD0, CHR 0xB2, CHR 0xD0, CHR 0xB0, CHR 0xD0,
    CHR 0xB5, CHR 0xD0, CHR 0xBC, CHR 0xD1, CHR 0x8B, CHR 0xD0, CHR 0xB9, CHR 0x20, CHR 0xD1,
    CHR 0x84, CHR 0xD0, CHR 0xBE, CHR 0xD1, CHR 0x80, CHR 0xD0, CHR 0xBC, CHR 0xD0, CHR 0xB0,
    CHR 0xD1, CHR 0x82, CHR 0x3A, CHR 0x20]"

definition msg_not_converted :: string where
  "msg_not_converted = [CHR 0xD0, CHR 0x9D, CHR 0xD0, CHR 0xB5, CHR 0x20, CHR 0xD1, CHR 0x83,
    CHR 0xD0, CHR 0xB4, CHR 0xD0, CHR 0xB0, CHR 0xD0, CHR 0xBB, CHR 0xD0, CHR 0xBE, CHR 0xD1,
    CHR 0x81, CHR 0xD1, CHR 0x8C, CHR 0x20, CHR 0xD0, CHR 0xBA, CHR 0xD0, CHR 0xBE, CHR 0xD0,
    CHR 0xBD, CHR 0xD0, CHR 0xB2, CHR 0xD0, CHR 0xB5, CHR 0xD1, CHR 0x80, CHR 0xD1, CHR 0x82,
    CHR 0xD0, CHR 0xB8, CHR 0xD1, CHR 0x80, CHR 0xD0, CHR 0xBE, CHR 0xD0, CHR 0xB2, CHR 0xD0,
    CHR 0xB0, CHR 0xD1, CHR 0x82, CHR 0xD1, CHR 0x8C, CHR 0x20, CHR 0xD0, CHR 0xB2, CHR 0x20]"

definition msg_error :: string where
  "msg_error = [CHR 0xD0, CHR 0x9E, CHR 0xD1, CHR 0x88, CHR 0xD0, CHR 0xB8, CHR 0xD0, CHR 0xB1,
    CHR 0xD0, CHR 0xBA, CHR 0xD0, CHR 0xB0, CHR 0x20, CHR 0xD0, CHR 0xBA, CHR 0xD0, CHR 0xBE,
    CHR 0xD0, CHR 0xBD, CHR 0xD0, CHR 0xB2, CHR 0xD0, CHR 0xB5, CHR 0xD1, CHR 0x80, CHR 0xD1,
    CHR 0x82, CHR 0xD0, CHR 0xB0, CHR 0xD1, CHR 0x86, CHR 0xD0, CHR 0xB8, CHR 0xD0, CHR 0xB8,
    CHR 0x3A, CHR 0x20]"

text \<open>The returned tuple \<open>(success, buffer, error_message)\<close>, the buffer as its content.\<close>

type_synonym conversion = "bool \<times> bytes \<times> string"

text \<open>The encoder chosen by the \<open>if\<close>/\<open>elif\<close> chain on \<open>format_name\<close>.\<close>

definition encode :: "'px pil \<Rightarrow> 'px image \<Rightarrow> string \<Rightarrow> string \<Rightarrow> ('px, bool) py" where
  "encode pil img format_name pil_format =
    (if format_name = ''ICO'' then convert_to_ico pil img
     else if format_name = ''JPEG'' then convert_to_jpeg pil img pil_format
     else if format_name = ''PDF'' then convert_to_pdf pil img
     else py_bind
            (save pil img \<lparr>kw_format = pil_format, kw_sizes = None, kw_bitmap_format = None,
               kw_append_images = None, kw_optimize = Some True, kw_quality = None\<rparr>)
            (\<lambda>_. py_return True))"

text \<open>
  The \<open>try\<close> block of \<open>convert_to_format\<close>. \<open>output = io.BytesIO()\<close> starts the encoder on
  an empty stream; a failure returns a new, empty \<open>io.BytesIO()\<close>.
\<close>

definition convert_to_format_try ::
  "'px pil \<Rightarrow> 'px image \<Rightarrow> string \<Rightarrow> (exn + conversion) \<times> 'px call list" where
  "convert_to_format_try pil img format_name =
    (case map_of FORMAT_MAP format_name of
       None \<Rightarrow> (Inr (False, [], msg_unsupported @ format_name), [])
     | Some (pil_format, extension) \<Rightarrow>
         (case encode pil img format_name pil_format [] of
            (Inl e, output, cs) \<Rightarrow> (Inl e, cs)
          | (Inr converted_img, output, cs) \<Rightarrow>
              (if \<not> converted_img
               then (Inr (False, [], msg_not_converted @ format_name), cs)
               else (Inr (True, output, []), cs))))"

text \<open>
  The whole function: what the call returns (\<open>Inr\<close>) or raises (\<open>Inl\<close>), and the library
  calls it made.
\<close>

definition convert_to_format ::
  "'px pil \<Rightarrow> 'px image \<Rightarrow> string \<Rightarrow> (exn + conversion) \<times> 'px call list" where
  "convert_to_format pil img format_name =
    (case convert_to_format_try pil img format_name of
       (Inl e, cs) \<Rightarrow> (Inr (False, [], msg_error @ str e), cs)
     | (Inr r, cs) \<Rightarrow> (Inr r, cs))"

subsection \<open>A batch of conversions\<close>

text \<open>
  The loop \<open>for i, fmt in enumerate(selected_formats, 1)\<close> of \<open>handle_conversion_completion\<close>,
  reduced to its calls of \<open>convert_to_format\<close> on the one source image: the results in
  order, or the exception that ends the loop if a call raises.
\<close>

fun convert_batch ::
  "'px pil \<Rightarrow> 'px image \<Rightarrow> string list \<Rightarrow> (exn + conversion list) \<times> 'px call list" where
  "convert_batch pil img [] = (Inr [], [])"
| "convert_batch pil img (fmt # fmts) =
    (case convert_to_format pil img fmt of
       (Inl e, cs) \<Rightarrow> (Inl e, cs)
     | (Inr r, cs) \<Rightarrow>
         (case convert_batch pil img fmts of
            (Inl e, cs') \<Rightarrow> (Inl e, cs @ cs')
          | (Inr rs, cs') \<Rightarrow> (Inr (r # rs), cs @ cs')))"

subsection \<open>Reading the log of library calls\<close>

text \<open>The images handed to \<open>save\<close>, with the arguments of the call, in order.\<close>

fun saves :: "'px call list \<Rightarrow> ('px image \<times> 'px save_kwargs) list" where
  "saves [] = []"
| "saves (Save im kw # cs) = (im, kw) # saves cs"
| "saves (c # cs) = saves cs"

subsection \<open>The rules as the specification words them\<close>

text \<open>Section 4.5, step 2: the target resolution by descending threshold.\<close>

definition spec_icon_size :: "int \<Rightarrow> int" where
  "spec_icon_size base =
    (if base \<ge> 256 then 256 else if base \<ge> 128 then 128 else if base \<ge> 64 then 64
     else if base \<ge> 32 then 32 else max base 16)"

text \<open>
  Section 4.5, step 7: the mode of the fallback, RGBA if the source mode is LA or Palette or
  has transparency metadata, else RGB.
\<close>

definition spec_fallback_mode :: "string \<Rightarrow> bool \<Rightarrow> string" where
  "spec_fallback_mode m t = (if m \<in> set [''LA'', ''P''] \<or> t then ''RGBA'' else ''RGB'')"

text \<open>The same rule with the modes RGB and RGBA left as they are.\<close>

definition fallback_mode :: "string \<Rightarrow> bool \<Rightarrow> string" where
  "fallback_mode m t =
    (if m \<in> set [''RGB'', ''RGBA''] then m
     else if t \<or> m \<in> set [''LA'', ''P''] then ''RGBA'' else ''RGB'')"

subsection \<open>Concrete libraries and images, for evaluation\<close>

definition img_of :: "int \<Rightarrow> int \<Rightarrow> string \<Rightarrow> bool \<Rightarrow> unit image" where
  "img_of w h m t = \<lparr>width = w, height = h, mode = m, transparency = t, pixels = ()\<rparr>"

text \<open>A library in which every call succeeds; a save appends three bytes to the stream.\<close>

definition lib_ok :: "unit pil" where
  "lib_ok = \<lparr>pil_crop = (\<lambda>img box. Inr ()), pil_resize = (\<lambda>img sz. Inr ()),
     pil_copy = (\<lambda>img. Inr ()), pil_convert = (\<lambda>img m. Inr ((), False)),
     pil_new = (\<lambda>m sz. Inr ()), pil_split = (\<lambda>img. Inr (map (\<lambda>c. ()) (mode img))),
     pil_paste = (\<lambda>background img mask'. Inr ()),
     pil_save = (\<lambda>img kw out. (out @ [7, 8, 9], None))\<rparr>"

text \<open>A library in which every call raises; a save leaves the stream as it was.\<close>

definition lib_raising :: "unit pil" where
  "lib_raising = \<lparr>pil_crop = (\<lambda>img box. Inl (Exception ''crop'')),
     pil_resize = (\<lambda>img sz. Inl (Exception ''resize'')),
     pil_copy = (\<lambda>img. Inl (Exception ''copy'')),
     pil_convert = (\<lambda>img m. Inl (Exception ''convert'')),
     pil_new = (\<lambda>m sz. Inl (Exception ''new'')),
     pil_split = (\<lambda>img. Inl (Exception ''split'')),
     pil_paste = (\<lambda>background img mask'. Inl (Exception ''paste'')),
     pil_save = (\<lambda>img kw out. (out, Some (Exception ''save'')))\<rparr>"

text \<open>A library that cannot resample or copy: \<open>resize\<close> and \<open>copy\<close> raise, the rest succeeds.\<close>

definition lib_strict :: "unit pil" where
  "lib_strict = lib_ok\<lparr>pil_resize := (\<lambda>img sz. Inl (Exception ''resize'')),
     pil_copy := (\<lambda>img. Inl (Exception ''copy''))\<rparr>"

text \<open>
  A library whose save, when it is given the \<open>sizes\<close> argument, writes the four bytes of
  the icon header and then raises; without that argument it writes three bytes and
  succeeds.
\<close>

definition lib_partial :: "unit pil" where
  "lib_partial = lib_ok\<lparr>pil_save := (\<lambda>img kw out.
     if kw_sizes kw \<noteq> None then (out @ [0, 0, 1, 0], Some (Exception ''encoder''))
     else (out @ [7, 8, 9], None))\<rparr>"

section \<open>Properties\<close>

lemmas py_defs = py_return_def py_raise_def py_bind_def py_try_def
lemmas lib_call_defs = crop_def resize_def copy_def convert_def new_def split_def paste_def
  save_def last_item_def
lemmas fixture_defs = img_of_def lib_ok_def lib_raising_def lib_strict_def lib_partial_def

lemma msg_error_nonempty: "msg_error \<noteq> []"
  by (simp add: msg_error_def)

lemma msg_unsupported_nonempty: "msg_unsupported \<noteq> []"
  by (simp add: msg_unsupported_def)

lemma msg_not_converted_nonempty: "msg_not_converted \<noteq> []"
  by (simp add: msg_not_converted_def)

subsection \<open>What each step of the icon encoder does\<close>

lemma saves_append: "saves (xs @ ys) = saves xs @ saves ys"
  by (induction xs rule: saves.induct) auto

lemma py_bind_cases:
  "py_bind m f out = (r, out2, cs) \<Longrightarrow>
   (\<exists>e. m out = (Inl e, out2, cs) \<and> r = Inl e) \<or>
   (\<exists>x out1 cs1 cs2. m out = (Inr x, out1, cs1) \<and> f x out1 = (r, out2, cs2) \<and> cs = cs1 @ cs2)"
  by (auto simp: py_bind_def split: prod.splits sum.splits)

lemma py_return_run: "py_return x out = (r, out', cs) \<Longrightarrow> r = Inr x \<and> out' = out \<and> cs = []"
  by (auto simp: py_return_def)

lemma crop_run:
  "crop pil img box out = (r, out', cs) \<Longrightarrow>
   out' = out \<and> cs = [Crop img box] \<and>
   (\<forall>x. r = Inr x \<longrightarrow> width x = fst (snd (snd box)) - fst box \<and>
      height x = snd (snd (snd box)) - fst (snd box) \<and>
      mode x = mode img \<and> transparency x = transparency img)"
  by (auto simp: crop_def split: sum.splits prod.splits)

lemma resize_run:
  "resize pil img sz out = (r, out', cs) \<Longrightarrow>
   out' = out \<and> cs = [Resize img sz] \<and>
   (\<forall>x. r = Inr x \<longrightarrow> width x = fst sz \<and> height x = snd sz \<and>
      mode x = mode img \<and> transparency x = transparency img)"
  by (auto simp: resize_def split: sum.splits)

lemma copy_run:
  "copy pil img out = (r, out', cs) \<Longrightarrow>
   out' = out \<and> cs = [Copy img] \<and>
   (\<forall>x. r = Inr x \<longrightarrow> width x = width img \<and> height x = height img \<and>
      mode x = mode img \<and> transparency x = transparency img)"
  by (auto simp: copy_def split: sum.splits)

lemma convert_run:
  "convert pil img m out = (r, out', cs) \<Longrightarrow>
   out' = out \<and> cs = [Convert img m] \<and>
   (\<forall>x. r = Inr x \<longrightarrow> width x = width img \<and> height x = height img \<and> mode x = m)"
  by (auto simp: convert_def split: sum.splits prod.splits)

lemma save_run:
  "save pil img kw out = (r, out', cs) \<Longrightarrow> cs = [Save img kw] \<and> out' = fst (pil_save pil img kw out)"
  by (auto simp: save_def split: prod.splits option.splits)

lemma square_box_width:
  "fst (snd (snd (square_box img))) - fst (square_box img) = min (width img) (height img)"
  by (simp only: square_box_def Let_def fst_conv snd_conv add_diff_cancel_left')

lemma square_box_height:
  "snd (snd (snd (square_box img))) - fst (snd (square_box img)) = min (width img) (height img)"
  by (simp only: square_box_def Let_def fst_conv snd_conv add_diff_cancel_left')

lemma crop_to_square_run:
  assumes "crop_to_square pil img out = (r, out', cs)"
  shows "out' = out \<and>
   cs = (if width img \<noteq> height img then [Crop img (square_box img)] else []) \<and>
   (\<forall>sq. r = Inr sq \<longrightarrow> width sq = min (width img) (height img) \<and>
      height sq = min (width img) (height img) \<and>
      mode sq = mode img \<and> transparency sq = transparency img)"
proof (cases "width img = height img")
  case True
  with assms have "py_return img out = (r, out', cs)"
    by (simp add: crop_to_square_def)
  from py_return_run[OF this] have a: "out' = out" and b: "cs = []" and c: "r = Inr img"
    by blast+
  have b': "cs = (if width img \<noteq> height img then [Crop img (square_box img)] else [])"
    using b True by simp
  have m: "min (width img) (height img) = width img" "min (width img) (height img) = height img"
    using True by simp_all
  have c': "\<forall>sq. r = Inr sq \<longrightarrow> width sq = min (width img) (height img) \<and>
      height sq = min (width img) (height img) \<and>
      mode sq = mode img \<and> transparency sq = transparency img"
    unfolding c using m by (metis sum.inject(2))
  from a b' c' show ?thesis by blast
next
  case False
  with assms have "crop pil img (square_box img) out = (r, out', cs)"
    by (simp add: crop_to_square_def)
  from crop_run[OF this] have a: "out' = out" and b: "cs = [Crop img (square_box img)]"
    and c: "\<forall>x. r = Inr x \<longrightarrow> width x = min (width img) (height img) \<and>
      height x = min (width img) (height img) \<and>
      mode x = mode img \<and> transparency x = transparency img"
    unfolding square_box_width square_box_height by blast+
  have b': "cs = (if width img \<noteq> height img then [Crop img (square_box img)] else [])"
    using b False by simp
  from a b' c show ?thesis by blast
qed

lemma fallback_resize_run:
  "fallback_resize pil sq s out = (r, out', cs) \<Longrightarrow>
   out' = out \<and>
   cs = (if (width sq, height sq) \<noteq> (s, s) then [Resize sq (s, s)] else []) \<and>
   (\<forall>x. r = Inr x \<longrightarrow> width x = s \<and> height x = s \<and>
      mode x = mode sq \<and> transparency x = transparency sq)"
  unfolding fallback_resize_def
  by (auto dest!: resize_run py_return_run split: if_splits)

lemma fallback_convert_run:
  "fallback_convert pil rz out = (r, out', cs) \<Longrightarrow>
   out' = out \<and>
   cs = (if mode rz \<notin> set [''RGB'', ''RGBA'']
         then [Convert rz (fallback_mode (mode rz) (transparency rz))] else []) \<and>
   (\<forall>x. r = Inr x \<longrightarrow> width x = width rz \<and> height x = height rz \<and>
      mode x = fallback_mode (mode rz) (transparency rz))"
  unfolding fallback_convert_def fallback_mode_def
  by (auto dest!: convert_run py_return_run split: if_splits)

lemma fallback_save_run:
  "fallback_save pil im out = (r, out', cs) \<Longrightarrow>
   cs = [Save im fallback_kwargs] \<and> r \<noteq> Inr False \<and>
   out' = fst (pil_save pil im fallback_kwargs out)"
  unfolding fallback_save_def
  by (auto dest!: py_bind_cases save_run py_return_run)

lemma ico_mode_run:
  "ico_mode pil rz out = (r, out', cs) \<Longrightarrow>
   out' = out \<and>
   cs = (if mode rz \<in> set [''RGBA'', ''RGB''] then [] else [Convert rz ''RGBA'']) \<and>
   (\<forall>x. r = Inr x \<longrightarrow> width x = width rz \<and> height x = height rz \<and>
      mode x = (if mode rz = ''RGB'' then ''RGB'' else ''RGBA''))"
  unfolding ico_mode_def
  by (auto dest!: convert_run py_return_run split: if_splits)

lemma min_cap: "((b::int) \<noteq> min 256 b) = (256 < b)"
  by auto

lemma ico_fallback_run:
  assumes run: "ico_fallback pil img out = (r, out2, cs)"
    and b: "b = min (width img) (height img)" and s: "s = min 256 b"
  shows "length (saves cs) \<le> 1 \<and>
    (\<forall>im kw. (im, kw) \<in> set (saves cs) \<longrightarrow>
       width im = s \<and> height im = s \<and>
       mode im = fallback_mode (mode img) (transparency img) \<and> kw = fallback_kwargs) \<and>
    (\<forall>sq sz. Resize sq sz \<in> set cs \<longrightarrow>
       sz = (s, s) \<and> width sq = b \<and> height sq = b \<and> 256 < b) \<and>
    (\<forall>im box. Crop im box \<in> set cs \<longrightarrow>
       im = img \<and> box = square_box img \<and> width img \<noteq> height img) \<and>
    (\<forall>im m. Convert im m \<in> set cs \<longrightarrow>
       mode im = mode img \<and> transparency im = transparency img \<and>
       mode img \<notin> set [''RGB'', ''RGBA''] \<and>
       m = fallback_mode (mode img) (transparency img)) \<and>
    (width img \<noteq> height img \<longrightarrow> cs \<noteq> [] \<and> hd cs = Crop img (square_box img)) \<and>
    (r = Inr True \<longrightarrow> saves cs \<noteq> [] \<and> (256 < b \<longrightarrow> (\<exists>sq. Resize sq (s, s) \<in> set cs))) \<and>
    r \<noteq> Inr False"
proof -
  have bs: "(b \<noteq> s) = (256 < b)"
    unfolding s by (rule min_cap)
  from run have u1: "py_bind (crop_to_square pil img) (\<lambda>sq.
        py_bind (fallback_resize pil sq s) (\<lambda>rz.
        py_bind (fallback_convert pil rz) (\<lambda>cv.
        fallback_save pil cv))) out = (r, out2, cs)"
    unfolding ico_fallback_def Let_def b s .
  from py_bind_cases[OF u1] consider
    (crop_fail) e where "crop_to_square pil img out = (Inl e, out2, cs)" "r = Inl e"
  | (crop_ok) sq o1 c1 c2 where "crop_to_square pil img out = (Inr sq, o1, c1)"
      "py_bind (fallback_resize pil sq s) (\<lambda>rz.
        py_bind (fallback_convert pil rz) (\<lambda>cv.
        fallback_save pil cv)) o1 = (r, out2, c2)" "cs = c1 @ c2"
    by blast
  then show ?thesis
  proof cases
    case crop_fail
    from crop_to_square_run[OF crop_fail(1)]
    have "cs = (if width img \<noteq> height img then [Crop img (square_box img)] else [])"
      by blast
    with crop_fail(2) show ?thesis by simp
  next
    case crop_ok
    from crop_to_square_run[OF crop_ok(1)]
    have c1: "c1 = (if width img \<noteq> height img then [Crop img (square_box img)] else [])"
      and sq: "width sq = b" "height sq = b" "mode sq = mode img"
        "transparency sq = transparency img"
      unfolding b by blast+
    from py_bind_cases[OF crop_ok(2)] consider
      (resize_fail) e where "fallback_resize pil sq s o1 = (Inl e, out2, c2)" "r = Inl e"
    | (resize_ok) rz o2 c3 c4 where "fallback_resize pil sq s o1 = (Inr rz, o2, c3)"
        "py_bind (fallback_convert pil rz) (\<lambda>cv. fallback_save pil cv) o2 = (r, out2, c4)"
        "c2 = c3 @ c4"
      by blast
    then show ?thesis
    proof cases
      case resize_fail
      from fallback_resize_run[OF resize_fail(1)]
      have "c2 = (if (width sq, height sq) \<noteq> (s, s) then [Resize sq (s, s)] else [])"
        by blast
      then have c2: "c2 = (if 256 < b then [Resize sq (s, s)] else [])"
        using sq bs by simp
      show ?thesis
        unfolding crop_ok(3) c1 c2 resize_fail(2) using sq by simp
    next
      case resize_ok
      from fallback_resize_run[OF resize_ok(1)]
      have "c3 = (if (width sq, height sq) \<noteq> (s, s) then [Resize sq (s, s)] else [])"
        and rz0: "width rz = s" "height rz = s" "mode rz = mode sq"
          "transparency rz = transparency sq"
        by blast+
      then have c3: "c3 = (if 256 < b then [Resize sq (s, s)] else [])"
        and rz: "width rz = s" "height rz = s" "mode rz = mode img"
          "transparency rz = transparency img"
        using sq bs by simp_all
      from py_bind_cases[OF resize_ok(2)] consider
        (convert_fail) e where "fallback_convert pil rz o2 = (Inl e, out2, c4)" "r = Inl e"
      | (convert_ok) cv o3 c5 c6 where "fallback_convert pil rz o2 = (Inr cv, o3, c5)"
          "fallback_save pil cv o3 = (r, out2, c6)" "c4 = c5 @ c6"
        by blast
      then show ?thesis
      proof cases
        case convert_fail
        from fallback_convert_run[OF convert_fail(1)]
        have "c4 = (if mode rz \<notin> set [''RGB'', ''RGBA'']
           then [Convert rz (fallback_mode (mode rz) (transparency rz))] else [])"
          by blast
        then have c4: "c4 = (if mode img \<notin> set [''RGB'', ''RGBA'']
           then [Convert rz (fallback_mode (mode img) (transparency img))] else [])"
          using rz by simp
        show ?thesis
          unfolding crop_ok(3) c1 resize_ok(3) c3 c4 convert_fail(2) using sq rz by simp
      next
        case convert_ok
        from fallback_convert_run[OF convert_ok(1)]
        have "c5 = (if mode rz \<notin> set [''RGB'', ''RGBA'']
           then [Convert rz (fallback_mode (mode rz) (transparency rz))] else [])"
          and cv0: "width cv = width rz" "height cv = height rz"
            "mode cv = fallback_mode (mode rz) (transparency rz)"
          by blast+
        then have c5: "c5 = (if mode img \<notin> set [''RGB'', ''RGBA'']
           then [Convert rz (fallback_mode (mode img) (transparency img))] else [])"
          and cv: "width cv = s" "height cv = s"
            "mode cv = fallback_mode (mode img) (transparency img)"
          using rz by simp_all
        from fallback_save_run[OF convert_ok(2)]
        have c6: "c6 = [Save cv fallback_kwargs]" and rr: "r \<noteq> Inr False"
          by blast+
        show ?thesis
          unfolding crop_ok(3) c1 resize_ok(3) c3 convert_ok(3) c5 c6
          using sq rz cv rr by simp
      qed
    qed
  qed
qed

lemma ico_resize_run:
  assumes run: "(if width img \<noteq> sz \<or> height img \<noteq> sz then
         py_bind (crop_to_square pil img) (\<lambda>square_img. resize pil square_img (sz, sz))
       else copy pil img) out = (r, out', cs)"
    and b: "b = min (width img) (height img)"
  shows "out' = out \<and> saves cs = [] \<and> (\<forall>im m. Convert im m \<notin> set cs) \<and>
    (\<forall>x. r = Inr x \<longrightarrow> width x = sz \<and> height x = sz \<and> mode x = mode img) \<and>
    (\<forall>im box. Crop im box \<in> set cs \<longrightarrow>
       im = img \<and> box = square_box img \<and> width img \<noteq> height img) \<and>
    (\<forall>sq z. Resize sq z \<in> set cs \<longrightarrow> z = (sz, sz) \<and> width sq = b \<and> height sq = b) \<and>
    (width img \<noteq> height img \<longrightarrow> cs \<noteq> [] \<and> hd cs = Crop img (square_box img))"
proof (cases "width img \<noteq> sz \<or> height img \<noteq> sz")
  case False
  with run have "copy pil img out = (r, out', cs)" by simp
  from copy_run[OF this] have a: "out' = out" and c: "cs = [Copy img]"
    and x: "\<forall>x. r = Inr x \<longrightarrow> width x = width img \<and> height x = height img \<and> mode x = mode img"
    by blast+
  from False have eq: "width img = sz" "height img = sz" by simp_all
  from x have x': "\<forall>x. r = Inr x \<longrightarrow> width x = sz \<and> height x = sz \<and> mode x = mode img"
    unfolding eq .
  have rest: "saves cs = [] \<and> (\<forall>im m. Convert im m \<notin> set cs) \<and>
    (\<forall>im box. Crop im box \<in> set cs \<longrightarrow>
       im = img \<and> box = square_box img \<and> width img \<noteq> height img) \<and>
    (\<forall>sq z. Resize sq z \<in> set cs \<longrightarrow> z = (sz, sz) \<and> width sq = b \<and> height sq = b) \<and>
    (width img \<noteq> height img \<longrightarrow> cs \<noteq> [] \<and> hd cs = Crop img (square_box img))"
    unfolding c eq by simp
  from a x' rest show ?thesis by blast
next
  case True
  with run have u: "py_bind (crop_to_square pil img)
      (\<lambda>square_img. resize pil square_img (sz, sz)) out = (r, out', cs)"
    by simp
  from py_bind_cases[OF u] consider
    (crop_fail) e where "crop_to_square pil img out = (Inl e, out', cs)" "r = Inl e"
  | (crop_ok) sq o1 c1 c2 where "crop_to_square pil img out = (Inr sq, o1, c1)"
      "resize pil sq (sz, sz) o1 = (r, out', c2)" "cs = c1 @ c2"
    by blast
  then show ?thesis
  proof cases
    case crop_fail
    from crop_to_square_run[OF crop_fail(1)]
    have a: "out' = out"
      and c: "cs = (if width img \<noteq> height img then [Crop img (square_box img)] else [])"
      by blast+
    have "width img \<noteq> height img"
    proof
      assume "width img = height img"
      then have "crop_to_square pil img out = py_return img out"
        by (simp add: crop_to_square_def)
      with crop_fail(1) show False by (simp add: py_return_def)
    qed
    with a c crop_fail(2) show ?thesis by simp
  next
    case crop_ok
    from crop_to_square_run[OF crop_ok(1)]
    have o1: "o1 = out"
      and c1: "c1 = (if width img \<noteq> height img then [Crop img (square_box img)] else [])"
      and sq: "width sq = b" "height sq = b" "mode sq = mode img"
      unfolding b by blast+
    from resize_run[OF crop_ok(2)]
    have a: "out' = o1" and c2: "c2 = [Resize sq (sz, sz)]"
      and x: "\<forall>x. r = Inr x \<longrightarrow> width x = fst (sz, sz) \<and> height x = snd (sz, sz) \<and>
        mode x = mode sq"
      by blast+
    from x have x': "\<forall>x. r = Inr x \<longrightarrow> width x = sz \<and> height x = sz \<and> mode x = mode img"
      unfolding fst_conv snd_conv sq .
    have rest: "saves cs = [] \<and> (\<forall>im m. Convert im m \<notin> set cs) \<and>
      (\<forall>im box. Crop im box \<in> set cs \<longrightarrow>
         im = img \<and> box = square_box img \<and> width img \<noteq> height img) \<and>
      (\<forall>sq z. Resize sq z \<in> set cs \<longrightarrow> z = (sz, sz) \<and> width sq = b \<and> height sq = b) \<and>
      (width img \<noteq> height img \<longrightarrow> cs \<noteq> [] \<and> hd cs = Crop img (square_box img))"
      unfolding crop_ok(3) c1 c2 using sq by simp
    from a o1 x' rest show ?thesis by blast
  qed
qed

lemma ico_frame_run:
  assumes run: "ico_frame pil img sz out = (r, out', cs)"
    and b: "b = min (width img) (height img)"
  shows "out' = out \<and> saves cs = [] \<and>
    (\<forall>x. r = Inr x \<longrightarrow> width x = sz \<and> height x = sz) \<and>
    (\<forall>im box. Crop im box \<in> set cs \<longrightarrow>
       im = img \<and> box = square_box img \<and> width img \<noteq> height img) \<and>
    (\<forall>sq z. Resize sq z \<in> set cs \<longrightarrow> z = (sz, sz) \<and> width sq = b \<and> height sq = b) \<and>
    (width img \<noteq> height img \<longrightarrow> cs \<noteq> [] \<and> hd cs = Crop img (square_box img))"
proof -
  from run have u: "py_bind
      (if width img \<noteq> sz \<or> height img \<noteq> sz then
         py_bind (crop_to_square pil img) (\<lambda>square_img. resize pil square_img (sz, sz))
       else copy pil img)
      (\<lambda>resized. ico_mode pil resized) out = (r, out', cs)"
    unfolding ico_frame_def .
  from py_bind_cases[OF u] consider
    (fail) e where "(if width img \<noteq> sz \<or> height img \<noteq> sz then
         py_bind (crop_to_square pil img) (\<lambda>square_img. resize pil square_img (sz, sz))
       else copy pil img) out = (Inl e, out', cs)" "r = Inl e"
  | (ok) rz o1 c1 c2 where "(if width img \<noteq> sz \<or> height img \<noteq> sz then
         py_bind (crop_to_square pil img) (\<lambda>square_img. resize pil square_img (sz, sz))
       else copy pil img) out = (Inr rz, o1, c1)"
      "ico_mode pil rz o1 = (r, out', c2)" "cs = c1 @ c2"
    by blast
  then show ?thesis
  proof cases
    case fail
    from ico_resize_run[OF fail(1) b] fail(2) show ?thesis by blast
  next
    case ok
    from ico_resize_run[OF ok(1) b]
    have o1: "o1 = out" and s1: "saves c1 = []"
      and rz: "width rz = sz" "height rz = sz"
      and crop1: "\<forall>im box. Crop im box \<in> set c1 \<longrightarrow>
         im = img \<and> box = square_box img \<and> width img \<noteq> height img"
      and res1: "\<forall>sq z. Resize sq z \<in> set c1 \<longrightarrow> z = (sz, sz) \<and> width sq = b \<and> height sq = b"
      and hd1: "width img \<noteq> height img \<longrightarrow> c1 \<noteq> [] \<and> hd c1 = Crop img (square_box img)"
      by blast+
    from ico_mode_run[OF ok(2)]
    have a: "out' = o1"
      and c2: "c2 = (if mode rz \<in> set [''RGBA'', ''RGB''] then [] else [Convert rz ''RGBA''])"
      and x: "\<forall>x. r = Inr x \<longrightarrow> width x = width rz \<and> height x = height rz"
      by blast+
    from x have x': "\<forall>x. r = Inr x \<longrightarrow> width x = sz \<and> height x = sz"
      unfolding rz .
    have c2_no: "(\<forall>im box. Crop im box \<notin> set c2) \<and> (\<forall>sq z. Resize sq z \<notin> set c2) \<and>
        saves c2 = []"
      unfolding c2 by simp
    have s: "saves cs = []"
      unfolding ok(3) saves_append s1 using c2_no by simp
    have crop: "\<forall>im box. Crop im box \<in> set cs \<longrightarrow>
         im = img \<and> box = square_box img \<and> width img \<noteq> height img"
      using crop1 c2_no unfolding ok(3) set_append by blast
    have res: "\<forall>sq z. Resize sq z \<in> set cs \<longrightarrow> z = (sz, sz) \<and> width sq = b \<and> height sq = b"
      using res1 c2_no unfolding ok(3) set_append by blast
    have hd: "width img \<noteq> height img \<longrightarrow> cs \<noteq> [] \<and> hd cs = Crop img (square_box img)"
      using hd1 unfolding ok(3) by (metis Nil_is_append_conv hd_append2)
    from a o1 s x' crop res hd show ?thesis by blast
  qed
qed

lemma ico_frames_single:
  "ico_frames pil img [sz] = py_bind (ico_frame pil img sz) (\<lambda>resized. py_return [resized])"
  by (rule ext) (simp add: py_bind_def py_return_def split: prod.splits sum.splits)

lemma ico_save_run:
  assumes "ico_save pil [x] out = (r, out', cs)"
  shows "r \<noteq> Inr False \<and>
    cs = [Save x \<lparr>kw_format = ''ICO'', kw_sizes = Some [(width x, height x)],
           kw_bitmap_format = Some ''bmp'', kw_append_images = None,
           kw_optimize = None, kw_quality = None\<rparr>]"
proof -
  from assms have u: "py_bind (save pil x \<lparr>kw_format = ''ICO'',
           kw_sizes = Some [(width x, height x)],
           kw_bitmap_format = Some ''bmp'', kw_append_images = None,
           kw_optimize = None, kw_quality = None\<rparr>) (\<lambda>_. py_return True) out = (r, out', cs)"
    by (simp add: ico_save_def Let_def)
  from py_bind_cases[OF u] show ?thesis
    by (auto dest!: save_run py_return_run)
qed

lemma py_bind_return_cases:
  "py_bind m (\<lambda>x. py_return (g x)) out = (r, out', cs) \<Longrightarrow>
   (\<exists>e. m out = (Inl e, out', cs) \<and> r = Inl e) \<or>
   (\<exists>x. m out = (Inr x, out', cs) \<and> r = Inr (g x))"
  by (auto simp: py_bind_def py_return_def split: prod.splits sum.splits)

lemma ico_sizes_spec: "ico_sizes b = [spec_icon_size b]"
  by (simp add: ico_sizes_def spec_icon_size_def)


lemma ico_primary_run:
  assumes run: "ico_primary pil img out = (r, out2, cs)"
    and b: "b = min (width img) (height img)" and s: "s = spec_icon_size b"
  shows "length (saves cs) \<le> 1 \<and>
    (\<forall>im kw. (im, kw) \<in> set (saves cs) \<longrightarrow>
       width im = s \<and> height im = s \<and>
       kw = \<lparr>kw_format = ''ICO'', kw_sizes = Some [(s, s)],
           kw_bitmap_format = Some ''bmp'', kw_append_images = None,
           kw_optimize = None, kw_quality = None\<rparr>) \<and>
    (\<forall>im box. Crop im box \<in> set cs \<longrightarrow>
       im = img \<and> box = square_box img \<and> width img \<noteq> height img) \<and>
    (\<forall>sq z. Resize sq z \<in> set cs \<longrightarrow> z = (s, s) \<and> width sq = b \<and> height sq = b) \<and>
    (width img \<noteq> height img \<longrightarrow> cs \<noteq> [] \<and> hd cs = Crop img (square_box img)) \<and>
    (r = Inr True \<longrightarrow> saves cs \<noteq> []) \<and>
    r \<noteq> Inr False"
proof -
  from run have u: "py_bind
      (py_bind (ico_frame pil img s) (\<lambda>resized. py_return [resized]))
      (\<lambda>images. if images \<noteq> [] then ico_save pil images else py_return False) out
      = (r, out2, cs)"
    unfolding ico_primary_def Let_def b s ico_sizes_spec ico_frames_single .
  from py_bind_cases[OF u] consider
    (fail) e where "py_bind (ico_frame pil img s) (\<lambda>resized. py_return [resized]) out
        = (Inl e, out2, cs)" "r = Inl e"
  | (ok) images o1 c1 c2 where
      "py_bind (ico_frame pil img s) (\<lambda>resized. py_return [resized]) out = (Inr images, o1, c1)"
      "(if images \<noteq> [] then ico_save pil images else py_return False) o1 = (r, out2, c2)"
      "cs = c1 @ c2"
    by blast
  then show ?thesis
  proof cases
    case fail
    from py_bind_return_cases[OF fail(1)] obtain e' where
      f: "ico_frame pil img s out = (Inl e', out2, cs)"
      by blast
    from ico_frame_run[OF f b]
    have s0: "saves cs = []"
      and crop: "\<forall>im box. Crop im box \<in> set cs \<longrightarrow>
         im = img \<and> box = square_box img \<and> width img \<noteq> height img"
      and res: "\<forall>sq z. Resize sq z \<in> set cs \<longrightarrow> z = (s, s) \<and> width sq = b \<and> height sq = b"
      and hd: "width img \<noteq> height img \<longrightarrow> cs \<noteq> [] \<and> hd cs = Crop img (square_box img)"
      by blast+
    have p1: "length (saves cs) \<le> 1 \<and>
      (\<forall>im kw. (im, kw) \<in> set (saves cs) \<longrightarrow>
       width im = s \<and> height im = s \<and>
       kw = \<lparr>kw_format = ''ICO'', kw_sizes = Some [(s, s)],
           kw_bitmap_format = Some ''bmp'', kw_append_images = None,
           kw_optimize = None, kw_quality = None\<rparr>)"
      unfolding s0 by simp
    have rr: "r \<noteq> Inr True" "r \<noteq> Inr False"
      unfolding fail(2) by simp_all
    from p1 crop res hd rr show ?thesis by blast
  next
    case ok
    from py_bind_return_cases[OF ok(1)] obtain x where
      f: "ico_frame pil img s out = (Inr x, o1, c1)" and im: "images = [x]"
      by blast
    from ico_frame_run[OF f b]
    have s1: "saves c1 = []" and x: "width x = s" "height x = s"
      and crop1: "\<forall>im box. Crop im box \<in> set c1 \<longrightarrow>
         im = img \<and> box = square_box img \<and> width img \<noteq> height img"
      and res1: "\<forall>sq z. Resize sq z \<in> set c1 \<longrightarrow> z = (s, s) \<and> width sq = b \<and> height sq = b"
      and hd1: "width img \<noteq> height img \<longrightarrow> c1 \<noteq> [] \<and> hd c1 = Crop img (square_box img)"
      by blast+
    from ok(2) have "ico_save pil [x] o1 = (r, out2, c2)"
      unfolding im by simp
    from ico_save_run[OF this]
    have rr: "r \<noteq> Inr False"
      and c2: "c2 = [Save x \<lparr>kw_format = ''ICO'', kw_sizes = Some [(s, s)],
           kw_bitmap_format = Some ''bmp'', kw_append_images = None,
           kw_optimize = None, kw_quality = None\<rparr>]"
      unfolding x by blast+
    have c2_no: "(\<forall>im box. Crop im box \<notin> set c2) \<and> (\<forall>sq z. Resize sq z \<notin> set c2)"
      unfolding c2 by simp
    have sv: "saves cs = [(x, \<lparr>kw_format = ''ICO'', kw_sizes = Some [(s, s)],
           kw_bitmap_format = Some ''bmp'', kw_append_images = None,
           kw_optimize = None, kw_quality = None\<rparr>)]"
      unfolding ok(3) saves_append s1 c2 by simp
    have p1: "length (saves cs) \<le> 1 \<and>
      (\<forall>im kw. (im, kw) \<in> set (saves cs) \<longrightarrow>
       width im = s \<and> height im = s \<and>
       kw = \<lparr>kw_format = ''ICO'', kw_sizes = Some [(s, s)],
           kw_bitmap_format = Some ''bmp'', kw_append_images = None,
           kw_optimize = None, kw_quality = None\<rparr>) \<and> saves cs \<noteq> []"
      unfolding sv using x by simp
    have crop: "\<forall>im box. Crop im box \<in> set cs \<longrightarrow>
         im = img \<and> box = square_box img \<and> width img \<noteq> height img"
      using crop1 c2_no unfolding ok(3) set_append by blast
    have res: "\<forall>sq z. Resize sq z \<in> set cs \<longrightarrow> z = (s, s) \<and> width sq = b \<and> height sq = b"
      using res1 c2_no unfolding ok(3) set_append by blast
    have hd: "width img \<noteq> height img \<longrightarrow> cs \<noteq> [] \<and> hd cs = Crop img (square_box img)"
      using hd1 unfolding ok(3) by (metis Nil_is_append_conv hd_append2)
    from p1 crop res hd rr show ?thesis by blast
  qed
qed

lemmas ico_defs = convert_to_ico_def ico_primary_def ico_fallback_def ico_frame_def ico_mode_def
  ico_save_def ico_sizes_def crop_to_square_def square_box_def fallback_resize_def
  fallback_convert_def fallback_save_def fallback_kwargs_def Let_def


subsection \<open>The orchestrator never raises\<close>

text \<open>The \<open>try\<close> block raises, or returns success with no message, or a failure with one.\<close>

lemma convert_to_format_try_shape:
  "(\<exists>e cs. convert_to_format_try pil img fmt = (Inl e, cs)) \<or>
   (\<exists>buf cs. convert_to_format_try pil img fmt = (Inr (True, buf, []), cs)) \<or>
   (\<exists>msg cs. convert_to_format_try pil img fmt = (Inr (False, [], msg), cs) \<and> msg \<noteq> [])"
  unfolding convert_to_format_try_def
  by (auto split: option.splits prod.splits sum.splits
      simp: msg_unsupported_nonempty msg_not_converted_nonempty)

lemma convert_to_format_shape:
  "\<exists>ok buf msg cs. convert_to_format pil img fmt = (Inr (ok, buf, msg), cs) \<and>
     (ok \<longrightarrow> msg = []) \<and> (\<not> ok \<longrightarrow> buf = [] \<and> msg \<noteq> [])"
  using convert_to_format_try_shape[of pil img fmt] unfolding convert_to_format_def
  by (auto simp: msg_error_nonempty)

lemma convert_batch_length:
  "\<exists>rs cs. convert_batch pil img fmts = (Inr rs, cs) \<and> length rs = length fmts"
proof (induction fmts)
  case Nil
  show ?case by simp
next
  case (Cons f fs)
  obtain ok buf msg cs where "convert_to_format pil img f = (Inr (ok, buf, msg), cs)"
    using convert_to_format_shape[of pil img f] by blast
  with Cons show ?case by auto
qed

text \<open>What \<open>convert_to_format\<close> returns, by the outcome of the encoder it dispatched to.\<close>

lemma convert_to_format_by_encoder:
  "map_of FORMAT_MAP fmt = Some (pil_format, extension) \<Longrightarrow>
   convert_to_format pil img fmt =
     (case encode pil img fmt pil_format [] of
        (Inl e, out, cs) \<Rightarrow> (Inr (False, [], msg_error @ str e), cs)
      | (Inr converted_img, out, cs) \<Rightarrow>
          (if converted_img then (Inr (True, out, []), cs)
           else (Inr (False, [], msg_not_converted @ fmt), cs)))"
  by (simp add: convert_to_format_def convert_to_format_try_def
      split: prod.splits sum.splits)

text \<open>The handlers of the three special encoders.\<close>

lemma py_try_False:
  "m out = (r, out', cs) \<Longrightarrow>
   py_try m (\<lambda>e. py_return False) out =
     ((case r of Inl e \<Rightarrow> Inr False | Inr ok \<Rightarrow> Inr ok), out', cs)"
  by (simp add: py_try_def py_return_def split: sum.splits)

lemma convert_to_jpeg_handler:
  "convert_to_jpeg_try pil img pf out = (r, out', cs) \<Longrightarrow>
   convert_to_jpeg pil img pf out =
     ((case r of Inl e \<Rightarrow> Inr False | Inr ok \<Rightarrow> Inr ok), out', cs)"
  unfolding convert_to_jpeg_def by (rule py_try_False)

lemma convert_to_pdf_handler:
  "convert_to_pdf_try pil img out = (r, out', cs) \<Longrightarrow>
   convert_to_pdf pil img out =
     ((case r of Inl e \<Rightarrow> Inr False | Inr ok \<Rightarrow> Inr ok), out', cs)"
  unfolding convert_to_pdf_def by (rule py_try_False)

lemma convert_to_ico_primary_ok:
  "ico_primary pil img out = (Inr ok, out', cs) \<Longrightarrow>
   convert_to_ico pil img out = (Inr ok, out', cs)"
  by (simp add: convert_to_ico_def py_try_def)

lemma convert_to_ico_handler:
  "ico_primary pil img out = (Inl e, out1, cs1) \<Longrightarrow>
   ico_fallback pil img out1 = (r2, out2, cs2) \<Longrightarrow>
   convert_to_ico pil img out =
     ((case r2 of Inl e' \<Rightarrow> Inr False | Inr ok \<Rightarrow> Inr ok), out2, cs1 @ cs2)"
  by (simp add: convert_to_ico_def py_try_def py_return_def split: sum.splits)

text \<open>A library whose \<open>save\<close> raises on every call.\<close>

lemma save_raises:
  assumes "\<forall>im kw out. snd (pil_save pil im kw out) \<noteq> None"
  shows "\<exists>e out' cs. save pil im kw out = (Inl e, out', cs)"
proof -
  from assms have "snd (pil_save pil im kw out) \<noteq> None" by blast
  then obtain o1 e where "pil_save pil im kw out = (o1, Some e)"
    by (metis not_None_eq prod.collapse)
  then show ?thesis by (simp add: save_def)
qed

lemma save_then_True_raises:
  assumes h: "\<forall>im kw out. snd (pil_save pil im kw out) \<noteq> None"
    and run: "py_bind (save pil im kw) (\<lambda>_. py_return True) out = (r, out', cs)"
  shows "\<exists>e. r = Inl e"
proof -
  from save_raises[OF h, of im kw out] obtain e o1 c1 where
    "save pil im kw out = (Inl e, o1, c1)" by blast
  with run show ?thesis by (auto simp: py_bind_def)
qed

lemma py_bind_last:
  "py_bind m f out = (Inr y, out2, cs) \<Longrightarrow> \<exists>x out1 cs2. f x out1 = (Inr y, out2, cs2)"
  using py_bind_cases[of m f out "Inr y" out2 cs] by blast

lemma jpeg_try_raises:
  assumes h: "\<forall>im kw out. snd (pil_save pil im kw out) \<noteq> None"
  shows "\<exists>e out' cs. convert_to_jpeg_try pil img pf out = (Inl e, out', cs)"
proof -
  obtain r out' cs where run: "convert_to_jpeg_try pil img pf out = (r, out', cs)"
    by (metis prod_cases3)
  have "\<exists>e. r = Inl e"
  proof (cases r)
    case (Inl e)
    then show ?thesis by blast
  next
    case (Inr y)
    from run[unfolded convert_to_jpeg_try_def Inr, THEN py_bind_last]
    obtain x o1 c2 where "py_bind (save pil x \<lparr>kw_format = pf, kw_sizes = None,
         kw_bitmap_format = None, kw_append_images = None, kw_optimize = Some True,
         kw_quality = Some 90\<rparr>) (\<lambda>_. py_return True) o1 = (Inr y, out', c2)"
      by blast
    from save_then_True_raises[OF h this] show ?thesis by simp
  qed
  with run show ?thesis by blast
qed

lemma pdf_try_raises:
  assumes h: "\<forall>im kw out. snd (pil_save pil im kw out) \<noteq> None"
  shows "\<exists>e out' cs. convert_to_pdf_try pil img out = (Inl e, out', cs)"
proof -
  obtain r out' cs where run: "convert_to_pdf_try pil img out = (r, out', cs)"
    by (metis prod_cases3)
  have "\<exists>e. r = Inl e"
  proof (cases r)
    case (Inl e)
    then show ?thesis by blast
  next
    case (Inr y)
    from run[unfolded convert_to_pdf_try_def Inr, THEN py_bind_last]
    obtain x o1 c2 where "py_bind (save pil x \<lparr>kw_format = ''PDF'', kw_sizes = None,
         kw_bitmap_format = None, kw_append_images = None, kw_optimize = Some True,
         kw_quality = None\<rparr>) (\<lambda>_. py_return True) o1 = (Inr y, out', c2)"
      by blast
    from save_then_True_raises[OF h this] show ?thesis by simp
  qed
  with run show ?thesis by blast
qed

lemma ico_fallback_raises:
  assumes h: "\<forall>im kw out. snd (pil_save pil im kw out) \<noteq> None"
  shows "\<exists>e out' cs. ico_fallback pil img out = (Inl e, out', cs)"
proof -
  obtain r out' cs where run: "ico_fallback pil img out = (r, out', cs)"
    by (metis prod_cases3)
  have "\<exists>e. r = Inl e"
  proof (cases r)
    case (Inl e)
    then show ?thesis by blast
  next
    case (Inr y)
    from run[unfolded ico_fallback_def Let_def Inr, THEN py_bind_last]
    obtain x1 o1 c1 where "py_bind
        (fallback_resize pil x1 (min 256 (min (width img) (height img))))
        (\<lambda>resized. py_bind (fallback_convert pil resized) (\<lambda>resized.
           fallback_save pil resized)) o1 = (Inr y, out', c1)"
      by blast
    from this[THEN py_bind_last] obtain x2 o2 c2 where
      "py_bind (fallback_convert pil x2) (\<lambda>resized. fallback_save pil resized) o2
         = (Inr y, out', c2)"
      by blast
    from this[THEN py_bind_last] obtain x3 o3 c3 where
      "fallback_save pil x3 o3 = (Inr y, out', c3)"
      by blast
    from save_then_True_raises[OF h this[unfolded fallback_save_def]] show ?thesis by simp
  qed
  with run show ?thesis by blast
qed

lemma ico_primary_raises:
  assumes h: "\<forall>im kw out. snd (pil_save pil im kw out) \<noteq> None"
  shows "\<exists>e out' cs. ico_primary pil img out = (Inl e, out', cs)"
proof -
  obtain r out' cs where run: "ico_primary pil img out = (r, out', cs)"
    by (metis prod_cases3)
  from ico_primary_run[OF run refl refl] have nf: "r \<noteq> Inr False" by blast
  have "\<exists>e. r = Inl e"
  proof (cases r)
    case (Inl e)
    then show ?thesis by blast
  next
    case (Inr y)
    from run[unfolded ico_primary_def Let_def Inr, THEN py_bind_last]
    obtain images o1 c1 where
      t: "(if images \<noteq> [] then ico_save pil images else py_return False) o1 = (Inr y, out', c1)"
      by blast
    show ?thesis
    proof (cases "images = []")
      case True
      with t have "y = False" by (simp add: py_return_def)
      with nf Inr show ?thesis by simp
    next
      case False
      with t have "ico_save pil images o1 = (Inr y, out', c1)" by simp
      from save_then_True_raises[OF h this[unfolded ico_save_def Let_def]]
      show ?thesis by simp
    qed
  qed
  with run show ?thesis by blast
qed


lemma convert_to_format_save_raises:
  assumes h: "\<forall>im kw out. snd (pil_save pil im kw out) \<noteq> None"
    and m: "map_of FORMAT_MAP fmt = Some (pf, ext)"
  shows "\<exists>msg cs. convert_to_format pil img fmt = (Inr (False, [], msg), cs) \<and> msg \<noteq> [] \<and>
    (fmt \<in> set [''ICO'', ''JPEG'', ''PDF''] \<longrightarrow> msg = msg_not_converted @ fmt)"
proof -
  have nc: "msg_not_converted @ fmt \<noteq> []"
    by (simp add: msg_not_converted_nonempty)
  consider (ico) "fmt = ''ICO''" | (jpeg) "fmt \<noteq> ''ICO''" "fmt = ''JPEG''"
    | (pdf) "fmt \<noteq> ''ICO''" "fmt \<noteq> ''JPEG''" "fmt = ''PDF''"
    | (generic) "fmt \<noteq> ''ICO''" "fmt \<noteq> ''JPEG''" "fmt \<noteq> ''PDF''"
    by blast
  then show ?thesis
  proof cases
    case ico
    from ico_primary_raises[OF h, of img "[]"] obtain e o1 c1 where
      p: "ico_primary pil img [] = (Inl e, o1, c1)" by blast
    from ico_fallback_raises[OF h, of img o1] obtain e' o2 c2 where
      f: "ico_fallback pil img o1 = (Inl e', o2, c2)" by blast
    from convert_to_ico_handler[OF p f]
    have "encode pil img fmt pf [] = (Inr False, o2, c1 @ c2)"
      unfolding ico by (simp add: encode_def)
    with convert_to_format_by_encoder[OF m, of pil img]
    have "convert_to_format pil img fmt = (Inr (False, [], msg_not_converted @ fmt), c1 @ c2)"
      by simp
    with nc show ?thesis by blast
  next
    case jpeg
    from jpeg_try_raises[OF h, of img pf "[]"] obtain e o1 c1 where
      "convert_to_jpeg_try pil img pf [] = (Inl e, o1, c1)" by blast
    from convert_to_jpeg_handler[OF this]
    have "encode pil img fmt pf [] = (Inr False, o1, c1)"
      unfolding jpeg(2) by (simp add: encode_def)
    with convert_to_format_by_encoder[OF m, of pil img]
    have "convert_to_format pil img fmt = (Inr (False, [], msg_not_converted @ fmt), c1)"
      by simp
    with nc show ?thesis by blast
  next
    case pdf
    from pdf_try_raises[OF h, of img "[]"] obtain e o1 c1 where
      "convert_to_pdf_try pil img [] = (Inl e, o1, c1)" by blast
    from convert_to_pdf_handler[OF this]
    have "encode pil img fmt pf [] = (Inr False, o1, c1)"
      unfolding pdf(3) by (simp add: encode_def)
    with convert_to_format_by_encoder[OF m, of pil img]
    have "convert_to_format pil img fmt = (Inr (False, [], msg_not_converted @ fmt), c1)"
      by simp
    with nc show ?thesis by blast
  next
    case generic
    obtain r o1 c1 where run: "encode pil img fmt pf [] = (r, o1, c1)"
      by (metis prod_cases3)
    from run generic have "py_bind
        (save pil img \<lparr>kw_format = pf, kw_sizes = None, kw_bitmap_format = None,
           kw_append_images = None, kw_optimize = Some True, kw_quality = None\<rparr>)
        (\<lambda>_. py_return True) [] = (r, o1, c1)"
      by (simp add: encode_def)
    from save_then_True_raises[OF h this] obtain e where "r = Inl e" by blast
    with run convert_to_format_by_encoder[OF m, of pil img]
    have "convert_to_format pil img fmt = (Inr (False, [], msg_error @ str e), c1)"
      by simp
    moreover have "msg_error @ str e \<noteq> []"
      by (simp add: msg_error_nonempty)
    ultimately show ?thesis using generic by auto
  qed
qed

text \<open>
  Claim C1. For every library, image and format identifier, \<open>convert_to_format\<close> returns
  a tuple and does not raise, and a result with \<open>success = False\<close> carries an empty buffer
  and a non-empty reason. For an identifier of the table the result follows the encoder
  it dispatches to: an exception that reaches the orchestrator is returned as the failure
  whose reason is the error text followed by \<open>str(e)\<close>; an encoder that returned \<open>False\<close>
  gives the failure whose reason names the format; an encoder that returned \<open>True\<close> gives
  the stream it wrote. The three special encoders capture their own failures: the JPEG
  and the PDF encoder return \<open>False\<close> when their \<open>try\<close> block raises, the icon encoder
  returns \<open>False\<close> when the primary and the fallback method both raise, and what they
  return otherwise is what the block returned. With a library whose \<open>save\<close> raises on
  every call, every identifier of the table yields a failure; for ICO, JPEG and PDF its
  reason is the one naming the format. A batch of N format identifiers yields N results,
  with no exception ending the loop.
\<close>

theorem convert_to_format_never_raises:
  "(\<exists>ok buf msg cs. convert_to_format pil img fmt = (Inr (ok, buf, msg), cs) \<and>
      (\<not> ok \<longrightarrow> buf = [] \<and> msg \<noteq> [])) \<and>
   (\<forall>pil_format extension. map_of FORMAT_MAP fmt = Some (pil_format, extension) \<longrightarrow>
      convert_to_format pil img fmt =
        (case encode pil img fmt pil_format [] of
           (Inl e, out, cs) \<Rightarrow> (Inr (False, [], msg_error @ str e), cs)
         | (Inr converted_img, out, cs) \<Rightarrow>
             (if converted_img then (Inr (True, out, []), cs)
              else (Inr (False, [], msg_not_converted @ fmt), cs)))) \<and>
   (\<forall>pf out r out' cs. convert_to_jpeg_try pil img pf out = (r, out', cs) \<longrightarrow>
      convert_to_jpeg pil img pf out =
        ((case r of Inl e \<Rightarrow> Inr False | Inr ok \<Rightarrow> Inr ok), out', cs)) \<and>
   (\<forall>out r out' cs. convert_to_pdf_try pil img out = (r, out', cs) \<longrightarrow>
      convert_to_pdf pil img out =
        ((case r of Inl e \<Rightarrow> Inr False | Inr ok \<Rightarrow> Inr ok), out', cs)) \<and>
   (\<forall>out ok out' cs. ico_primary pil img out = (Inr ok, out', cs) \<longrightarrow>
      convert_to_ico pil img out = (Inr ok, out', cs)) \<and>
   (\<forall>out e out1 cs1 r2 out2 cs2. ico_primary pil img out = (Inl e, out1, cs1) \<longrightarrow>
      ico_fallback pil img out1 = (r2, out2, cs2) \<longrightarrow>
      convert_to_ico pil img out =
        ((case r2 of Inl e' \<Rightarrow> Inr False | Inr ok \<Rightarrow> Inr ok), out2, cs1 @ cs2)) \<and>
   ((\<forall>im kw out. snd (pil_save pil im kw out) \<noteq> None) \<longrightarrow>
      (\<forall>pil_format extension. map_of FORMAT_MAP fmt = Some (pil_format, extension) \<longrightarrow>
         (\<exists>msg cs. convert_to_format pil img fmt = (Inr (False, [], msg), cs) \<and> msg \<noteq> [] \<and>
            (fmt \<in> set [''ICO'', ''JPEG'', ''PDF''] \<longrightarrow> msg = msg_not_converted @ fmt)))) \<and>
   (\<exists>rs cs. convert_batch pil img fmts = (Inr rs, cs) \<and> length rs = length fmts)"
proof (intro conjI allI impI)
  show "\<exists>ok buf msg cs. convert_to_format pil img fmt = (Inr (ok, buf, msg), cs) \<and>
      (\<not> ok \<longrightarrow> buf = [] \<and> msg \<noteq> [])"
    using convert_to_format_shape[of pil img fmt] by blast
next
  fix pil_format extension
  assume "map_of FORMAT_MAP fmt = Some (pil_format, extension)"
  then show "convert_to_format pil img fmt =
        (case encode pil img fmt pil_format [] of
           (Inl e, out, cs) \<Rightarrow> (Inr (False, [], msg_error @ str e), cs)
         | (Inr converted_img, out, cs) \<Rightarrow>
             (if converted_img then (Inr (True, out, []), cs)
              else (Inr (False, [], msg_not_converted @ fmt), cs)))"
    by (rule convert_to_format_by_encoder)
next
  fix pf out r out' cs
  assume "convert_to_jpeg_try pil img pf out = (r, out', cs)"
  then show "convert_to_jpeg pil img pf out =
        ((case r of Inl e \<Rightarrow> Inr False | Inr ok \<Rightarrow> Inr ok), out', cs)"
    by (rule convert_to_jpeg_handler)
next
  fix out r out' cs
  assume "convert_to_pdf_try pil img out = (r, out', cs)"
  then show "convert_to_pdf pil img out =
        ((case r of Inl e \<Rightarrow> Inr False | Inr ok \<Rightarrow> Inr ok), out', cs)"
    by (rule convert_to_pdf_handler)
next
  fix out ok out' cs
  assume "ico_primary pil img out = (Inr ok, out', cs)"
  then show "convert_to_ico pil img out = (Inr ok, out', cs)"
    by (rule convert_to_ico_primary_ok)
next
  fix out e out1 cs1 r2 out2 cs2
  assume "ico_primary pil img out = (Inl e, out1, cs1)"
    and "ico_fallback pil img out1 = (r2, out2, cs2)"
  then show "convert_to_ico pil img out =
        ((case r2 of Inl e' \<Rightarrow> Inr False | Inr ok \<Rightarrow> Inr ok), out2, cs1 @ cs2)"
    by (rule convert_to_ico_handler)
next
  fix pil_format extension
  assume "\<forall>im kw out. snd (pil_save pil im kw out) \<noteq> None"
    and "map_of FORMAT_MAP fmt = Some (pil_format, extension)"
  then show "\<exists>msg cs. convert_to_format pil img fmt = (Inr (False, [], msg), cs) \<and> msg \<noteq> [] \<and>
            (fmt \<in> set [''ICO'', ''JPEG'', ''PDF''] \<longrightarrow> msg = msg_not_converted @ fmt)"
    by (rule convert_to_format_save_raises)
next
  show "\<exists>rs cs. convert_batch pil img fmts = (Inr rs, cs) \<and> length rs = length fmts"
    by (rule convert_batch_length)
qed

text \<open>
  The theorem at a library whose every call raises and a 300x200 RGB image: the JPEG and
  the PDF encoder return \<open>False\<close> after their save raised, the icon encoder returns \<open>False\<close>
  after the crop raised in the primary and in the fallback method, converting to JPEG
  returns the failure naming the format, and the batch PNG, JPEG, ICO has three results.
  At a library whose calls all succeed, the icon encoder returns what the primary method
  returned.
\<close>

theorem convert_to_format_never_raises_witness:
  "map_of FORMAT_MAP ''JPEG'' = Some (''JPEG'', ''jpg'') \<and>
   (\<forall>im kw out. snd (pil_save lib_raising im kw out) \<noteq> None) \<and>
   fst (convert_to_jpeg_try lib_raising (img_of 300 200 ''RGB'' False) ''JPEG'' [])
     = Inl (Exception ''save'') \<and>
   fst (convert_to_jpeg lib_raising (img_of 300 200 ''RGB'' False) ''JPEG'' []) = Inr False \<and>
   fst (convert_to_pdf_try lib_raising (img_of 300 200 ''RGB'' False) [])
     = Inl (Exception ''save'') \<and>
   fst (convert_to_pdf lib_raising (img_of 300 200 ''RGB'' False) []) = Inr False \<and>
   fst (ico_primary lib_raising (img_of 300 200 ''RGB'' False) []) = Inl (Exception ''crop'') \<and>
   fst (ico_fallback lib_raising (img_of 300 200 ''RGB'' False) []) = Inl (Exception ''crop'') \<and>
   fst (convert_to_ico lib_raising (img_of 300 200 ''RGB'' False) []) = Inr False \<and>
   fst (ico_primary lib_ok (img_of 64 64 ''RGB'' False) []) = Inr True \<and>
   fst (convert_to_ico lib_ok (img_of 64 64 ''RGB'' False) []) = Inr True \<and>
   fst (convert_to_format lib_raising (img_of 300 200 ''RGB'' False) ''JPEG'')
     = Inr (False, [], msg_not_converted @ ''JPEG'') \<and>
   (\<exists>rs cs. convert_batch lib_raising (img_of 300 200 ''RGB'' False) [''PNG'', ''JPEG'', ''ICO'']
      = (Inr rs, cs) \<and> length rs = 3)"
proof -
  note main = convert_to_format_never_raises
    [of lib_raising "img_of 300 200 ''RGB'' False" "''JPEG''" "[''PNG'', ''JPEG'', ''ICO'']"]
  note main_ok = convert_to_format_never_raises
    [of lib_ok "img_of 64 64 ''RGB'' False" "''JPEG''" "[]"]
  have tbl: "map_of FORMAT_MAP ''JPEG'' = Some (''JPEG'', ''jpg'')"
    by (simp add: FORMAT_MAP_def)
  have always: "\<forall>im kw out. snd (pil_save lib_raising im kw out) \<noteq> None"
    by (simp add: lib_raising_def)
  have j: "convert_to_jpeg_try lib_raising (img_of 300 200 ''RGB'' False) ''JPEG'' [] =
    (Inl (Exception ''save''), [],
     [Save (img_of 300 200 ''RGB'' False) \<lparr>kw_format = ''JPEG'', kw_sizes = None,
        kw_bitmap_format = None, kw_append_images = None, kw_optimize = Some True,
        kw_quality = Some 90\<rparr>])"
    by (simp add: convert_to_jpeg_try_def py_defs lib_call_defs fixture_defs)
  have p: "convert_to_pdf_try lib_raising (img_of 300 200 ''RGB'' False) [] =
    (Inl (Exception ''save''), [],
     [Save (img_of 300 200 ''RGB'' False) \<lparr>kw_format = ''PDF'', kw_sizes = None,
        kw_bitmap_format = None, kw_append_images = None, kw_optimize = Some True,
        kw_quality = None\<rparr>])"
    by (simp add: convert_to_pdf_try_def py_defs lib_call_defs fixture_defs)
  have i1: "ico_primary lib_raising (img_of 300 200 ''RGB'' False) [] =
    (Inl (Exception ''crop''), [], [Crop (img_of 300 200 ''RGB'' False) (50, 0, 250, 200)])"
    by (simp add: ico_defs py_defs lib_call_defs fixture_defs)
  have i2: "ico_fallback lib_raising (img_of 300 200 ''RGB'' False) [] =
    (Inl (Exception ''crop''), [], [Crop (img_of 300 200 ''RGB'' False) (50, 0, 250, 200)])"
    by (simp add: ico_defs py_defs lib_call_defs fixture_defs)
  have i3: "ico_primary lib_ok (img_of 64 64 ''RGB'' False) [] =
    (Inr True, [7, 8, 9],
     [Copy (img_of 64 64 ''RGB'' False),
      Save (img_of 64 64 ''RGB'' False)
        \<lparr>kw_format = ''ICO'', kw_sizes = Some [(64, 64)], kw_bitmap_format = Some ''bmp'',
         kw_append_images = None, kw_optimize = None, kw_quality = None\<rparr>])"
    by (simp add: ico_defs py_defs lib_call_defs fixture_defs)
  from main j have cj: "fst (convert_to_jpeg lib_raising (img_of 300 200 ''RGB'' False)
      ''JPEG'' []) = Inr False"
    by simp
  from main p have cp: "fst (convert_to_pdf lib_raising (img_of 300 200 ''RGB'' False) [])
      = Inr False"
    by simp
  from main i1 i2 have ci: "fst (convert_to_ico lib_raising (img_of 300 200 ''RGB'' False) [])
      = Inr False"
    by simp
  from main_ok i3 have co: "fst (convert_to_ico lib_ok (img_of 64 64 ''RGB'' False) [])
      = Inr True"
    by simp
  note sr = main[THEN conjunct2, THEN conjunct2, THEN conjunct2, THEN conjunct2,
    THEN conjunct2, THEN conjunct2, THEN conjunct1, THEN mp, OF always,
    THEN spec, THEN spec, THEN mp, OF tbl]
  from sr obtain msg cs where
    "convert_to_format lib_raising (img_of 300 200 ''RGB'' False) ''JPEG''
       = (Inr (False, [], msg), cs)"
    and "''JPEG'' \<in> set [''ICO'', ''JPEG'', ''PDF''] \<longrightarrow> msg = msg_not_converted @ ''JPEG''"
    by blast
  then have cf: "fst (convert_to_format lib_raising (img_of 300 200 ''RGB'' False) ''JPEG'')
     = Inr (False, [], msg_not_converted @ ''JPEG'')"
    by simp
  from main[THEN conjunct2, THEN conjunct2, THEN conjunct2, THEN conjunct2,
    THEN conjunct2, THEN conjunct2, THEN conjunct2] obtain rs cs where
    "convert_batch lib_raising (img_of 300 200 ''RGB'' False) [''PNG'', ''JPEG'', ''ICO'']
       = (Inr rs, cs)"
    and "length rs = length [''PNG'', ''JPEG'', ''ICO'']"
    by blast
  then have batch: "\<exists>rs cs.
    convert_batch lib_raising (img_of 300 200 ''RGB'' False) [''PNG'', ''JPEG'', ''ICO'']
      = (Inr rs, cs) \<and> length rs = 3"
    by (intro exI[of _ rs] exI[of _ cs]) simp
  have fj: "fst (convert_to_jpeg_try lib_raising (img_of 300 200 ''RGB'' False) ''JPEG'' [])
     = Inl (Exception ''save'')"
    unfolding j by simp
  have fp: "fst (convert_to_pdf_try lib_raising (img_of 300 200 ''RGB'' False) [])
     = Inl (Exception ''save'')"
    unfolding p by simp
  have f1: "fst (ico_primary lib_raising (img_of 300 200 ''RGB'' False) [])
     = Inl (Exception ''crop'')"
    unfolding i1 by simp
  have f2: "fst (ico_fallback lib_raising (img_of 300 200 ''RGB'' False) [])
     = Inl (Exception ''crop'')"
    unfolding i2 by simp
  have f3: "fst (ico_primary lib_ok (img_of 64 64 ''RGB'' False) []) = Inr True"
    unfolding i3 by simp
  from tbl always fj cj fp cp f1 f2 ci f3 co cf batch show ?thesis by blast
qed

subsection \<open>Identifiers outside the table\<close>

text \<open>
  Claim C8. For every format identifier outside PNG, JPEG, WEBP, BMP, TIF, TIFF, GIF, ICO,
  PDF, JP2, APNG, \<open>convert_to_format\<close> returns the unsupported-format failure (an empty
  buffer and the message naming the identifier), whatever the image and the library are,
  and makes no library call: the pixel buffer is neither read nor modified.
\<close>

theorem unsupported_format_untouched:
  "fmt \<notin> set [''PNG'', ''JPEG'', ''WEBP'', ''BMP'', ''TIF'', ''TIFF'', ''GIF'', ''ICO'', ''PDF'',
     ''JP2'', ''APNG''] \<Longrightarrow>
   convert_to_format pil img fmt = (Inr (False, [], msg_unsupported @ fmt), [])"
  by (simp add: convert_to_format_def convert_to_format_try_def FORMAT_MAP_def)

theorem unsupported_format_untouched_witness:
  "''XYZ'' \<notin> set [''PNG'', ''JPEG'', ''WEBP'', ''BMP'', ''TIF'', ''TIFF'', ''GIF'', ''ICO'', ''PDF'',
     ''JP2'', ''APNG''] \<and>
   convert_to_format lib_ok (img_of 300 200 ''RGB'' False) ''XYZ''
     = (Inr (False, [], msg_unsupported @ ''XYZ''), [])"
proof -
  have h: "''XYZ'' \<notin> set [''PNG'', ''JPEG'', ''WEBP'', ''BMP'', ''TIF'', ''TIFF'', ''GIF'', ''ICO'',
     ''PDF'', ''JP2'', ''APNG'']"
    by simp
  from unsupported_format_untouched[OF h, of lib_ok "img_of 300 200 ''RGB'' False"] h
  show ?thesis by blast
qed

subsection \<open>The generic encoder\<close>

lemma generic_path:
  "map_of FORMAT_MAP fmt = Some (pf, ext) \<Longrightarrow> fmt \<noteq> ''ICO'' \<Longrightarrow> fmt \<noteq> ''JPEG'' \<Longrightarrow>
   fmt \<noteq> ''PDF'' \<Longrightarrow>
   convert_to_format pil img fmt =
     (case pil_save pil img \<lparr>kw_format = pf, kw_sizes = None, kw_bitmap_format = None,
            kw_append_images = None, kw_optimize = Some True, kw_quality = None\<rparr> [] of
        (out, None) \<Rightarrow> (Inr (True, out, []),
           [Save img \<lparr>kw_format = pf, kw_sizes = None, kw_bitmap_format = None,
            kw_append_images = None, kw_optimize = Some True, kw_quality = None\<rparr>])
      | (out, Some e) \<Rightarrow> (Inr (False, [], msg_error @ str e),
           [Save img \<lparr>kw_format = pf, kw_sizes = None, kw_bitmap_format = None,
            kw_append_images = None, kw_optimize = Some True, kw_quality = None\<rparr>]))"
  by (simp add: convert_to_format_def convert_to_format_try_def encode_def py_defs save_def
      split: prod.splits option.splits)

lemma generic_table:
  "fmt \<in> set [''PNG'', ''WEBP'', ''BMP'', ''TIF'', ''TIFF'', ''GIF'', ''JP2'', ''APNG''] \<Longrightarrow>
   (\<exists>pf ext. map_of FORMAT_MAP fmt = Some (pf, ext)) \<and> fmt \<noteq> ''ICO'' \<and> fmt \<noteq> ''JPEG'' \<and>
   fmt \<noteq> ''PDF''"
  unfolding FORMAT_MAP_def by (elim disjE | simp)+

text \<open>
  Claim C9. For each of the identifiers PNG, WEBP, BMP, TIF, TIFF, GIF, JP2 and APNG the
  only library call is one save of the input image itself, in the container of the
  table, with \<open>optimize=True\<close>, on an empty stream: no crop, no resize, no conversion. If
  that save succeeds the result is the stream it wrote; if it raises, the result is the
  failure with the text of the exception, and no second call is made.
\<close>

theorem generic_encoder_direct:
  "fmt \<in> set [''PNG'', ''WEBP'', ''BMP'', ''TIF'', ''TIFF'', ''GIF'', ''JP2'', ''APNG''] \<Longrightarrow>
   \<exists>pil_format extension kw.
     map_of FORMAT_MAP fmt = Some (pil_format, extension) \<and>
     kw = \<lparr>kw_format = pil_format, kw_sizes = None, kw_bitmap_format = None,
            kw_append_images = None, kw_optimize = Some True, kw_quality = None\<rparr> \<and>
     convert_to_format pil img fmt =
       (case pil_save pil img kw [] of
          (out, None) \<Rightarrow> (Inr (True, out, []), [Save img kw])
        | (out, Some e) \<Rightarrow> (Inr (False, [], msg_error @ str e), [Save img kw]))"
proof -
  assume a: "fmt \<in> set [''PNG'', ''WEBP'', ''BMP'', ''TIF'', ''TIFF'', ''GIF'', ''JP2'', ''APNG'']"
  from generic_table[OF a] obtain pf ext where
    m: "map_of FORMAT_MAP fmt = Some (pf, ext)" and
    n: "fmt \<noteq> ''ICO''" "fmt \<noteq> ''JPEG''" "fmt \<noteq> ''PDF''"
    by blast
  from generic_path[OF m n, of pil img] m show ?thesis
    by blast
qed

theorem generic_encoder_direct_witness:
  "''TIF'' \<in> set [''PNG'', ''WEBP'', ''BMP'', ''TIF'', ''TIFF'', ''GIF'', ''JP2'', ''APNG''] \<and>
   (\<exists>pil_format extension kw.
     map_of FORMAT_MAP ''TIF'' = Some (pil_format, extension) \<and>
     kw = \<lparr>kw_format = pil_format, kw_sizes = None, kw_bitmap_format = None,
            kw_append_images = None, kw_optimize = Some True, kw_quality = None\<rparr> \<and>
     convert_to_format lib_ok (img_of 300 200 ''RGB'' False) ''TIF'' =
       (case pil_save lib_ok (img_of 300 200 ''RGB'' False) kw [] of
          (out, None) \<Rightarrow> (Inr (True, out, []), [Save (img_of 300 200 ''RGB'' False) kw])
        | (out, Some e) \<Rightarrow>
            (Inr (False, [], msg_error @ str e), [Save (img_of 300 200 ''RGB'' False) kw])))"
proof -
  have h: "''TIF'' \<in> set [''PNG'', ''WEBP'', ''BMP'', ''TIF'', ''TIFF'', ''GIF'', ''JP2'', ''APNG'']"
    by simp
  from generic_encoder_direct[OF h, of lib_ok "img_of 300 200 ''RGB'' False"] h
  show ?thesis by (rule_tac conjI)
qed

subsection \<open>APNG and PNG\<close>

text \<open>
  Claim C10. For every library and image, converting to APNG gives the same result and
  makes the same library calls as converting to PNG: both save into the container PNG,
  with no argument asking for an animation; the two entries of the table differ only in
  the extension, apng and png.
\<close>

theorem apng_same_as_png:
  "convert_to_format pil img ''APNG'' = convert_to_format pil img ''PNG'' \<and>
   map_of FORMAT_MAP ''APNG'' = Some (''PNG'', ''apng'') \<and>
   map_of FORMAT_MAP ''PNG'' = Some (''PNG'', ''png'')"
  by (simp add: convert_to_format_def convert_to_format_try_def FORMAT_MAP_def encode_def
      py_defs save_def split: prod.splits option.splits)

subsection \<open>The resolution the primary icon method selects\<close>

text \<open>
  Claim C2. With base the smaller of width and height, the primary method selects exactly
  one target resolution, by descending threshold: 256 from 256 up, 128 from 128 up, 64
  from 64 up, 32 from 32 up, else the larger of base and 16. The one image it hands to the
  encoder has that resolution in both dimensions and is recorded under it. A 500x500
  input selects 256, a 100x150 input 64, a 10x10 input 16.
\<close>

theorem ico_primary_size_selection:
  "ico_sizes (min (width img) (height img)) = [spec_icon_size (min (width img) (height img))] \<and>
   (\<forall>r out' cs im kw. ico_primary pil img out = (r, out', cs) \<longrightarrow>
      (im, kw) \<in> set (saves cs) \<longrightarrow>
        width im = spec_icon_size (min (width img) (height img)) \<and>
        height im = spec_icon_size (min (width img) (height img)) \<and>
        kw_sizes kw = Some [(spec_icon_size (min (width img) (height img)),
                             spec_icon_size (min (width img) (height img)))]) \<and>
   (\<forall>r out' cs. ico_primary pil img out = (r, out', cs) \<longrightarrow>
      length (saves cs) \<le> 1 \<and> (r = Inr True \<longrightarrow> saves cs \<noteq> [])) \<and>
   ico_sizes (min 500 500) = [256] \<and> ico_sizes (min 100 150) = [64] \<and>
   ico_sizes (min 10 10) = [16]"
proof (intro conjI allI impI)
  show "ico_sizes (min (width img) (height img)) = [spec_icon_size (min (width img) (height img))]"
    by (rule ico_sizes_spec)
next
  fix r out' cs im kw
  assume run: "ico_primary pil img out = (r, out', cs)" and m: "(im, kw) \<in> set (saves cs)"
  from ico_primary_run[OF run refl refl] m
  have w: "width im = spec_icon_size (min (width img) (height img))"
    and h: "height im = spec_icon_size (min (width img) (height img))"
    and k: "kw = \<lparr>kw_format = ''ICO'',
        kw_sizes = Some [(spec_icon_size (min (width img) (height img)),
                          spec_icon_size (min (width img) (height img)))],
        kw_bitmap_format = Some ''bmp'', kw_append_images = None,
        kw_optimize = None, kw_quality = None\<rparr>"
    by blast+
  show "width im = spec_icon_size (min (width img) (height img))" by (rule w)
  show "height im = spec_icon_size (min (width img) (height img))" by (rule h)
  show "kw_sizes kw = Some [(spec_icon_size (min (width img) (height img)),
                             spec_icon_size (min (width img) (height img)))]"
    unfolding k by simp
next
  fix r out' cs
  assume run: "ico_primary pil img out = (r, out', cs)"
  from ico_primary_run[OF run refl refl] show "length (saves cs) \<le> 1" by blast
next
  fix r out' cs
  assume run: "ico_primary pil img out = (r, out', cs)" and "r = Inr True"
  with ico_primary_run[OF run refl refl] show "saves cs \<noteq> []" by blast
next
  show "ico_sizes (min 500 500) = [256]" by (simp add: ico_sizes_def)
  show "ico_sizes (min 100 150) = [64]" by (simp add: ico_sizes_def)
  show "ico_sizes (min 10 10) = [16]" by (simp add: ico_sizes_def)
qed

text \<open>
  The theorem at a 100x150 RGB image and a library whose calls all succeed: the primary
  method returns \<open>True\<close> and its one save is of a 64x64 image, recorded as (64, 64).
\<close>

theorem ico_primary_size_selection_witness:
  "fst (ico_primary lib_ok (img_of 100 150 ''RGB'' False) []) = Inr True \<and>
   saves (snd (snd (ico_primary lib_ok (img_of 100 150 ''RGB'' False) []))) =
     [(img_of 64 64 ''RGB'' False,
       \<lparr>kw_format = ''ICO'', kw_sizes = Some [(64, 64)], kw_bitmap_format = Some ''bmp'',
         kw_append_images = None, kw_optimize = None, kw_quality = None\<rparr>)] \<and>
   width (img_of 64 64 ''RGB'' False)
     = spec_icon_size (min (width (img_of 100 150 ''RGB'' False))
         (height (img_of 100 150 ''RGB'' False)))"
proof -
  have e: "ico_primary lib_ok (img_of 100 150 ''RGB'' False) [] =
    (Inr True, [7, 8, 9],
     [Crop (img_of 100 150 ''RGB'' False) (0, 25, 100, 125),
      Resize (img_of 100 100 ''RGB'' False) (64, 64),
      Save (img_of 64 64 ''RGB'' False)
        \<lparr>kw_format = ''ICO'', kw_sizes = Some [(64, 64)], kw_bitmap_format = Some ''bmp'',
         kw_append_images = None, kw_optimize = None, kw_quality = None\<rparr>])"
    by (simp add: ico_defs py_defs lib_call_defs fixture_defs)
  have s: "saves (snd (snd (ico_primary lib_ok (img_of 100 150 ''RGB'' False) []))) =
     [(img_of 64 64 ''RGB'' False,
       \<lparr>kw_format = ''ICO'', kw_sizes = Some [(64, 64)], kw_bitmap_format = Some ''bmp'',
         kw_append_images = None, kw_optimize = None, kw_quality = None\<rparr>)]"
    unfolding e by simp
  have m: "(img_of 64 64 ''RGB'' False,
       \<lparr>kw_format = ''ICO'', kw_sizes = Some [(64, 64)], kw_bitmap_format = Some ''bmp'',
         kw_append_images = None, kw_optimize = None, kw_quality = None\<rparr>)
     \<in> set (saves [Crop (img_of 100 150 ''RGB'' False) (0, 25, 100, 125),
      Resize (img_of 100 100 ''RGB'' False) (64, 64),
      Save (img_of 64 64 ''RGB'' False)
        \<lparr>kw_format = ''ICO'', kw_sizes = Some [(64, 64)], kw_bitmap_format = Some ''bmp'',
         kw_append_images = None, kw_optimize = None, kw_quality = None\<rparr>])"
    by simp
  from ico_primary_size_selection[of "img_of 100 150 ''RGB'' False" lib_ok "[]"] e m
  have "width (img_of 64 64 ''RGB'' False)
     = spec_icon_size (min (width (img_of 100 150 ''RGB'' False))
         (height (img_of 100 150 ''RGB'' False)))"
    by blast
  moreover have "fst (ico_primary lib_ok (img_of 100 150 ''RGB'' False) []) = Inr True"
    unfolding e by simp
  ultimately show ?thesis using s by blast
qed

subsection \<open>The resolutions the icon encoder emits\<close>







subsection \<open>The simplified icon method\<close>

lemma fallback_mode_spec:
  "fallback_mode m t = (if m \<in> set [''RGB'', ''RGBA''] then m else spec_fallback_mode m t)"
  by (auto simp: fallback_mode_def spec_fallback_mode_def)

lemma convert_to_format_ico:
  "convert_to_ico pil img [] = (Inr False, out', cs) \<Longrightarrow>
   convert_to_format pil img ''ICO'' = (Inr (False, [], msg_not_converted @ ''ICO''), cs)"
proof -
  assume r: "convert_to_ico pil img [] = (Inr False, out', cs)"
  have t: "map_of FORMAT_MAP ''ICO'' = Some (''ICO'', ''ico'')"
    by (simp add: FORMAT_MAP_def)
  have e: "encode pil img ''ICO'' ''ICO'' [] = (Inr False, out', cs)"
    unfolding encode_def using r by simp
  show ?thesis
    unfolding convert_to_format_by_encoder[OF t] e by simp
qed

text \<open>
  Claim C4, at two 64x64 images and a library whose \<open>copy\<close> raises. The primary method
  fails in \<open>copy\<close> and the simplified method succeeds. An RGBA image with no transparency
  entry is handed to the encoder as RGBA, where the rule of the claim gives RGB; an RGB
  image with a transparency entry is handed to the encoder as RGB, where the rule of the
  claim gives RGBA.
\<close>

theorem icon_fallback_keeps_mode:
  "ico_primary lib_strict (img_of 64 64 ''RGBA'' False) [] =
     (Inl (Exception ''copy''), [], [Copy (img_of 64 64 ''RGBA'' False)]) \<and>
   ico_fallback lib_strict (img_of 64 64 ''RGBA'' False) [] =
     (Inr True, [7, 8, 9], [Save (img_of 64 64 ''RGBA'' False) fallback_kwargs]) \<and>
   mode (img_of 64 64 ''RGBA'' False) = ''RGBA'' \<and>
   spec_fallback_mode (mode (img_of 64 64 ''RGBA'' False))
     (transparency (img_of 64 64 ''RGBA'' False)) = ''RGB'' \<and>
   ico_primary lib_strict (img_of 64 64 ''RGB'' True) [] =
     (Inl (Exception ''copy''), [], [Copy (img_of 64 64 ''RGB'' True)]) \<and>
   ico_fallback lib_strict (img_of 64 64 ''RGB'' True) [] =
     (Inr True, [7, 8, 9], [Save (img_of 64 64 ''RGB'' True) fallback_kwargs]) \<and>
   mode (img_of 64 64 ''RGB'' True) = ''RGB'' \<and>
   spec_fallback_mode (mode (img_of 64 64 ''RGB'' True))
     (transparency (img_of 64 64 ''RGB'' True)) = ''RGBA''"
  by (simp add: ico_defs py_defs lib_call_defs fixture_defs spec_fallback_mode_def)

text \<open>
  Claim C4, amended. When the primary method raises, \<open>_convert_to_ico\<close> runs the simplified
  method once, on the same stream, and returns what it returns, or \<open>False\<close> if it raises
  too; its library calls are those of the primary method followed by those of that one
  run, and \<open>convert_to_format\<close> then reports the failure. With base the smaller of width
  and height and size = min(256, base), the simplified method crops a non-square image
  first, with the box of the primary method; resizes only the base x base square, only to
  (size, size) and only when base differs from size; converts only an image whose mode is
  neither RGB nor RGBA, to RGBA if the mode is LA or P or the image has a transparency
  entry, else to RGB; an RGB or RGBA image keeps its mode. It calls save at most once, on a
  size x size image in that mode, with the format and the bitmap format as only arguments.
\<close>

theorem icon_fallback_once:
  assumes primary: "ico_primary pil img out = (Inl e, out1, cs1)"
    and fallback: "ico_fallback pil img out1 = (r2, out2, cs2)"
    and b: "b = min (width img) (height img)" and s: "s = min 256 b"
  shows "convert_to_ico pil img out =
      ((case r2 of Inl e' \<Rightarrow> Inr False | Inr ok \<Rightarrow> Inr ok), out2, cs1 @ cs2) \<and>
    r2 \<noteq> Inr False \<and>
    (out = [] \<longrightarrow> (\<forall>e'. r2 = Inl e' \<longrightarrow>
       convert_to_format pil img ''ICO'' =
         (Inr (False, [], msg_not_converted @ ''ICO''), cs1 @ cs2))) \<and>
    length (saves cs2) \<le> 1 \<and>
    (r2 = Inr True \<longrightarrow> saves cs2 \<noteq> []) \<and>
    (\<forall>im kw. (im, kw) \<in> set (saves cs2) \<longrightarrow>
       width im = s \<and> height im = s \<and>
       mode im = fallback_mode (mode img) (transparency img) \<and> kw = fallback_kwargs) \<and>
    (\<forall>im box. Crop im box \<in> set cs2 \<longrightarrow>
       im = img \<and> box = square_box img \<and> width img \<noteq> height img) \<and>
    (width img \<noteq> height img \<longrightarrow> cs2 \<noteq> [] \<and> hd cs2 = Crop img (square_box img)) \<and>
    (\<forall>sq sz. Resize sq sz \<in> set cs2 \<longrightarrow>
       sz = (s, s) \<and> width sq = b \<and> height sq = b \<and> (width sq, height sq) \<noteq> (s, s)) \<and>
    (r2 = Inr True \<longrightarrow> b \<noteq> s \<longrightarrow> (\<exists>sq. Resize sq (s, s) \<in> set cs2)) \<and>
    (\<forall>im m. Convert im m \<in> set cs2 \<longrightarrow>
       mode im = mode img \<and> transparency im = transparency img \<and>
       mode img \<notin> set [''RGB'', ''RGBA''] \<and>
       m = fallback_mode (mode img) (transparency img)) \<and>
    fallback_mode (mode img) (transparency img) =
      (if mode img \<in> set [''RGB'', ''RGBA''] then mode img
       else spec_fallback_mode (mode img) (transparency img))"
proof -
  note run = ico_fallback_run[OF fallback b s]
  have bs: "(b \<noteq> s) = (256 < b)"
    unfolding s by (rule min_cap)
  have c: "convert_to_ico pil img out =
      ((case r2 of Inl e' \<Rightarrow> Inr False | Inr ok \<Rightarrow> Inr ok), out2, cs1 @ cs2)"
    by (rule convert_to_ico_handler[OF primary fallback])
  have nf: "r2 \<noteq> Inr False"
    using run by blast
  have fmt: "out = [] \<longrightarrow> (\<forall>e'. r2 = Inl e' \<longrightarrow>
       convert_to_format pil img ''ICO'' =
         (Inr (False, [], msg_not_converted @ ''ICO''), cs1 @ cs2))"
  proof (intro impI allI)
    fix e'
    assume o: "out = []" and r: "r2 = Inl e'"
    from c have "convert_to_ico pil img [] = (Inr False, out2, cs1 @ cs2)"
      unfolding o r by simp
    then show "convert_to_format pil img ''ICO'' =
         (Inr (False, [], msg_not_converted @ ''ICO''), cs1 @ cs2)"
      by (rule convert_to_format_ico)
  qed
  have len: "length (saves cs2) \<le> 1"
    using run by blast
  have ok: "r2 = Inr True \<longrightarrow> saves cs2 \<noteq> []"
    using run by blast
  have sv: "\<forall>im kw. (im, kw) \<in> set (saves cs2) \<longrightarrow>
       width im = s \<and> height im = s \<and>
       mode im = fallback_mode (mode img) (transparency img) \<and> kw = fallback_kwargs"
    using run by blast
  have cr: "\<forall>im box. Crop im box \<in> set cs2 \<longrightarrow>
       im = img \<and> box = square_box img \<and> width img \<noteq> height img"
    using run by blast
  have first: "width img \<noteq> height img \<longrightarrow> cs2 \<noteq> [] \<and> hd cs2 = Crop img (square_box img)"
    using run by blast
  have rz0: "\<forall>sq sz. Resize sq sz \<in> set cs2 \<longrightarrow>
       sz = (s, s) \<and> width sq = b \<and> height sq = b \<and> 256 < b"
    using run by blast
  have rz: "\<forall>sq sz. Resize sq sz \<in> set cs2 \<longrightarrow>
       sz = (s, s) \<and> width sq = b \<and> height sq = b \<and> (width sq, height sq) \<noteq> (s, s)"
  proof (intro allI impI)
    fix sq sz
    assume "Resize sq sz \<in> set cs2"
    with rz0 have f: "sz = (s, s)" "width sq = b" "height sq = b" "256 < b"
      by blast+
    from f(4) bs have "b \<noteq> s" by simp
    with f show "sz = (s, s) \<and> width sq = b \<and> height sq = b \<and> (width sq, height sq) \<noteq> (s, s)"
      by simp
  qed
  have rz_needed: "r2 = Inr True \<longrightarrow> b \<noteq> s \<longrightarrow> (\<exists>sq. Resize sq (s, s) \<in> set cs2)"
    unfolding bs using run by blast
  have cv: "\<forall>im m. Convert im m \<in> set cs2 \<longrightarrow>
       mode im = mode img \<and> transparency im = transparency img \<and>
       mode img \<notin> set [''RGB'', ''RGBA''] \<and>
       m = fallback_mode (mode img) (transparency img)"
    using run by blast
  note md = fallback_mode_spec[of "mode img" "transparency img"]
  from c nf fmt len ok sv cr first rz rz_needed cv md show ?thesis
    by (intro conjI)
qed

text \<open>
  The theorem at two runs. A 400x300 greyscale image and a library whose save fails when
  it is given \<open>sizes\<close>: the primary method fails in its save, the simplified method crops
  with the same box, resizes the 300x300 square to 256x256, converts it to RGB and saves
  it, and the call returns \<open>True\<close>. A 300x200 image and a library in which every call
  raises: both methods fail in \<open>crop\<close>, and \<open>convert_to_format\<close> reports the failure.
\<close>

theorem icon_fallback_once_witness:
  "ico_primary lib_partial (img_of 400 300 ''L'' False) [] =
     (Inl (Exception ''encoder''), [0, 0, 1, 0],
      [Crop (img_of 400 300 ''L'' False) (50, 0, 350, 300),
       Resize (img_of 300 300 ''L'' False) (256, 256),
       Convert (img_of 256 256 ''L'' False) ''RGBA'',
       Save (img_of 256 256 ''RGBA'' False)
         \<lparr>kw_format = ''ICO'', kw_sizes = Some [(256, 256)], kw_bitmap_format = Some ''bmp'',
          kw_append_images = None, kw_optimize = None, kw_quality = None\<rparr>]) \<and>
   ico_fallback lib_partial (img_of 400 300 ''L'' False) [0, 0, 1, 0] =
     (Inr True, [0, 0, 1, 0, 7, 8, 9],
      [Crop (img_of 400 300 ''L'' False) (50, 0, 350, 300),
       Resize (img_of 300 300 ''L'' False) (256, 256),
       Convert (img_of 256 256 ''L'' False) ''RGB'',
       Save (img_of 256 256 ''RGB'' False) fallback_kwargs]) \<and>
   fst (convert_to_ico lib_partial (img_of 400 300 ''L'' False) []) = Inr True \<and>
   fallback_mode (mode (img_of 400 300 ''L'' False))
     (transparency (img_of 400 300 ''L'' False)) = ''RGB'' \<and>
   ico_primary lib_raising (img_of 300 200 ''RGB'' False) [] =
     (Inl (Exception ''crop''), [], [Crop (img_of 300 200 ''RGB'' False) (50, 0, 250, 200)]) \<and>
   ico_fallback lib_raising (img_of 300 200 ''RGB'' False) [] =
     (Inl (Exception ''crop''), [], [Crop (img_of 300 200 ''RGB'' False) (50, 0, 250, 200)]) \<and>
   convert_to_format lib_raising (img_of 300 200 ''RGB'' False) ''ICO'' =
     (Inr (False, [], msg_not_converted @ ''ICO''),
      [Crop (img_of 300 200 ''RGB'' False) (50, 0, 250, 200),
       Crop (img_of 300 200 ''RGB'' False) (50, 0, 250, 200)])"
proof -
  have p1: "ico_primary lib_partial (img_of 400 300 ''L'' False) [] =
     (Inl (Exception ''encoder''), [0, 0, 1, 0],
      [Crop (img_of 400 300 ''L'' False) (50, 0, 350, 300),
       Resize (img_of 300 300 ''L'' False) (256, 256),
       Convert (img_of 256 256 ''L'' False) ''RGBA'',
       Save (img_of 256 256 ''RGBA'' False)
         \<lparr>kw_format = ''ICO'', kw_sizes = Some [(256, 256)], kw_bitmap_format = Some ''bmp'',
          kw_append_images = None, kw_optimize = None, kw_quality = None\<rparr>])"
    by (simp add: ico_defs py_defs lib_call_defs fixture_defs)
  have f1: "ico_fallback lib_partial (img_of 400 300 ''L'' False) [0, 0, 1, 0] =
     (Inr True, [0, 0, 1, 0, 7, 8, 9],
      [Crop (img_of 400 300 ''L'' False) (50, 0, 350, 300),
       Resize (img_of 300 300 ''L'' False) (256, 256),
       Convert (img_of 256 256 ''L'' False) ''RGB'',
       Save (img_of 256 256 ''RGB'' False) fallback_kwargs])"
    by (simp add: ico_defs py_defs lib_call_defs fixture_defs)
  note main1 = icon_fallback_once[OF p1 f1 refl refl]
  from main1[THEN conjunct1]
  have c1: "fst (convert_to_ico lib_partial (img_of 400 300 ''L'' False) []) = Inr True"
    by simp
  have m1: "fallback_mode (mode (img_of 400 300 ''L'' False))
     (transparency (img_of 400 300 ''L'' False)) = ''RGB''"
    by (simp add: fallback_mode_def img_of_def)
  have p2: "ico_primary lib_raising (img_of 300 200 ''RGB'' False) [] =
     (Inl (Exception ''crop''), [], [Crop (img_of 300 200 ''RGB'' False) (50, 0, 250, 200)])"
    by (simp add: ico_defs py_defs lib_call_defs fixture_defs)
  have f2: "ico_fallback lib_raising (img_of 300 200 ''RGB'' False) [] =
     (Inl (Exception ''crop''), [], [Crop (img_of 300 200 ''RGB'' False) (50, 0, 250, 200)])"
    by (simp add: ico_defs py_defs lib_call_defs fixture_defs)
  note main2 = icon_fallback_once[OF p2 f2 refl refl]
  from main2[THEN conjunct2, THEN conjunct2, THEN conjunct1, THEN mp, OF refl,
      THEN spec, THEN mp, OF refl]
  have c2: "convert_to_format lib_raising (img_of 300 200 ''RGB'' False) ''ICO'' =
     (Inr (False, [], msg_not_converted @ ''ICO''),
      [Crop (img_of 300 200 ''RGB'' False) (50, 0, 250, 200),
       Crop (img_of 300 200 ''RGB'' False) (50, 0, 250, 200)])"
    by simp
  from p1 f1 c1 m1 p2 f2 c2 show ?thesis
    by (intro conjI)
qed

subsection \<open>The centred square crop\<close>







subsection \<open>The JPEG encoder\<close>








text \<open>
  An LA image is pasted with no mask: the conditional expression passes the last band
  only when the mode is RGBA, so the alpha band of an LA image is not used.
\<close>

lemma jpeg_la_pasted_without_mask:
  "convert_to_jpeg lib_ok (img_of 4 4 ''LA'' False) ''JPEG'' [] =
     (Inr True, [7, 8, 9],
      [New ''RGB'' (4, 4),
       Paste (img_of 4 4 ''RGB'' False) (img_of 4 4 ''LA'' False) None,
       Save (img_of 4 4 ''RGB'' False)
         \<lparr>kw_format = ''JPEG'', kw_sizes = None, kw_bitmap_format = None,
          kw_append_images = None, kw_optimize = Some True, kw_quality = Some 90\<rparr>])"
  by (simp add: convert_to_jpeg_def convert_to_jpeg_try_def py_defs lib_call_defs save_def
      last_item_def fixture_defs)

subsection \<open>The stream after a failed primary icon attempt\<close>

text \<open>
  Claim C7, at a 64x64 RGB image, the identifier ICO and a library whose save, when it is
  given \<open>sizes\<close>, writes the four bytes of the icon header and then raises. The primary
  method fails in its save with those four bytes in the stream. The simplified method
  saves to the same stream, which is neither emptied nor replaced, and succeeds; run on an
  empty stream it writes three bytes. \<open>convert_to_format\<close> returns success with a stream
  of seven bytes: the four of the failed attempt, then the three of the successful one.
\<close>

theorem ico_fallback_keeps_primary_bytes:
  "ico_primary lib_partial (img_of 64 64 ''RGB'' False) [] =
     (Inl (Exception ''encoder''), [0, 0, 1, 0],
      [Copy (img_of 64 64 ''RGB'' False),
       Save (img_of 64 64 ''RGB'' False)
         \<lparr>kw_format = ''ICO'', kw_sizes = Some [(64, 64)], kw_bitmap_format = Some ''bmp'',
          kw_append_images = None, kw_optimize = None, kw_quality = None\<rparr>]) \<and>
   ico_fallback lib_partial (img_of 64 64 ''RGB'' False) [] =
     (Inr True, [7, 8, 9], [Save (img_of 64 64 ''RGB'' False) fallback_kwargs]) \<and>
   ico_fallback lib_partial (img_of 64 64 ''RGB'' False) [0, 0, 1, 0] =
     (Inr True, [0, 0, 1, 0, 7, 8, 9], [Save (img_of 64 64 ''RGB'' False) fallback_kwargs]) \<and>
   convert_to_format lib_partial (img_of 64 64 ''RGB'' False) ''ICO'' =
     (Inr (True, [0, 0, 1, 0, 7, 8, 9], []),
      [Copy (img_of 64 64 ''RGB'' False),
       Save (img_of 64 64 ''RGB'' False)
         \<lparr>kw_format = ''ICO'', kw_sizes = Some [(64, 64)], kw_bitmap_format = Some ''bmp'',
          kw_append_images = None, kw_optimize = None, kw_quality = None\<rparr>,
       Save (img_of 64 64 ''RGB'' False) fallback_kwargs])"
  by (simp add: convert_to_format_def convert_to_format_try_def FORMAT_MAP_def encode_def
      ico_defs py_defs lib_call_defs fixture_defs)

end
